theory Spec2Isabelle
  imports Main "HOL-Library.Word" "HOL-Library.Multiset"
begin

section \<open>Transaction authoring (package txauthor, author.go)\<close>

text \<open>
  The embedding follows \<^verbatim>\<open>wallet/txauthor/author.go\<close>. Amounts are Go \<^verbatim>\<open>int64\<close>
  values (\<^verbatim>\<open>czzutil.Amount\<close>): 64-bit words whose arithmetic wraps and whose
  comparisons are signed. Go \<^verbatim>\<open>int\<close> values that only hold slice lengths and
  indices are HOL integers. Callbacks of the source (\<^verbatim>\<open>InputSource\<close>,
  \<^verbatim>\<open>ChangeSource\<close>) are closures over wallet state, so the model threads a
  world \<open>'w\<close> through every call of a callback. Errors of collaborators have the
  type \<open>'e\<close>.
\<close>

subsection \<open>Data model\<close>

type_synonym Amount = "64 word"
type_synonym script = "8 word list"

text \<open>
  Modelled from the spec: the declarations of \<^verbatim>\<open>wire.TxIn\<close>, \<^verbatim>\<open>wire.TxOut\<close> and
  \<^verbatim>\<open>wire.MsgTx\<close> are outside the source file. An input is a reference to a
  previous output (transaction id and index) with an unlocking script; an
  output is a locking script with a value; the transaction has a version, the
  ordered inputs, the ordered outputs and a lock time.

  The source holds the inputs as pointers (\<^verbatim>\<open>[]*wire.TxIn\<close>) and the signing
  pass writes through them, so an input of a transaction is a pointer
  \<open>TxInPtr\<close> and the input objects live in a store \<open>TxInStore\<close>, from pointers
  to objects: one object may stand at several positions. The pointers are
  taken to be non-nil. The outputs are pointers as well, but no output object
  is ever written in this file, so an output is held by its value.
\<close>

record TxIn =
  PreviousOutPoint :: "8 word list \<times> 32 word"
  SignatureScript :: script

type_synonym TxInPtr = nat
type_synonym TxInStore = "TxInPtr \<Rightarrow> TxIn"

record TxOut =
  Value :: "64 word"
  PkScript :: script

record MsgTx =
  Version :: "32 word"
  TxIn :: "TxInPtr list"
  TxOut :: "TxOut list"
  LockTime :: "32 word"

record AuthoredTx =
  Tx :: MsgTx
  PrevScripts :: "script list"
  PrevInputValues :: "Amount list"
  TotalInput :: Amount
  ChangeIndex :: int

text \<open>
  The errors the package returns: \<^verbatim>\<open>insufficientFundsError{}\<close> (the default
  \<^verbatim>\<open>InputSourceError\<close>), the two \<^verbatim>\<open>errors.New\<close> values, and an error of a
  collaborator handed on unchanged.
\<close>

datatype 'e error =
    InsufficientFundsError
  | ChangeScriptTooLarge
  | SliceLengthMismatch
  | Collaborator 'e

text \<open>
  What one successful call of an \<^verbatim>\<open>InputSource\<close> returns: its results
  \<^verbatim>\<open>total\<close>, \<^verbatim>\<open>inputs\<close>, \<^verbatim>\<open>inputValues\<close> and \<^verbatim>\<open>scripts\<close>.
\<close>

record InputsFetched =
  src_total :: Amount
  src_inputs :: "TxInPtr list"
  src_inputValues :: "Amount list"
  src_scripts :: "script list"

type_synonym ('e, 'w) InputSource = "'w \<Rightarrow> Amount \<Rightarrow> ('e + InputsFetched) \<times> 'w"
type_synonym ('e, 'w) ChangeSource = "'w \<Rightarrow> ('e + script) \<times> 'w"

text \<open>
  The functions and constants of the packages \<^verbatim>\<open>txsizes\<close>, \<^verbatim>\<open>txrules\<close> and
  \<^verbatim>\<open>wire\<close> that \<^verbatim>\<open>NewUnsignedTransaction\<close> uses are not in the source file;
  they are parameters of the model.
\<close>

record policy =
  EstimateSerializeSize :: "int \<Rightarrow> TxOut list \<Rightarrow> bool \<Rightarrow> int"
  FeeForSerializeSize :: "Amount \<Rightarrow> int \<Rightarrow> Amount"
  IsDustAmount :: "Amount \<Rightarrow> int \<Rightarrow> Amount \<Rightarrow> bool"
  P2PKHPkScriptSize :: int
  TxVersion :: "32 word"

text \<open>
  Modelled from the spec: \<^verbatim>\<open>helpers.SumOutputValues\<close> is outside the source
  file; the target amount is the sum of the values of the outputs.
\<close>

definition SumOutputValues :: "TxOut list \<Rightarrow> Amount" where
  "SumOutputValues outputs = foldl (\<lambda>totalOutput txOut. totalOutput + Value txOut) 0 outputs"

definition NewTxOut :: "64 word \<Rightarrow> script \<Rightarrow> TxOut" where
  "NewTxOut v pkScript = \<lparr>Value = v, PkScript = pkScript\<rparr>"

subsection \<open>NewUnsignedTransaction\<close>

text \<open>
  Lines 104 to 134: once the inputs cover the outputs and the fee, the
  transaction is assembled and a change output is appended when the change is
  neither zero nor dust.
\<close>

definition assemble ::
  "policy \<Rightarrow> TxOut list \<Rightarrow> Amount \<Rightarrow> ('e, 'w) ChangeSource \<Rightarrow> Amount \<Rightarrow>
   InputsFetched \<Rightarrow> Amount \<Rightarrow> 'w \<Rightarrow> ('e error + AuthoredTx) \<times> 'w" where
  "assemble P outputs relayFeePerKb fetchChange targetAmount fetched maxRequiredFee w =
     (let unsignedTransaction =
            \<lparr>Version = TxVersion P, TxIn = src_inputs fetched, TxOut = outputs, LockTime = 0\<rparr>;
          changeAmount = src_total fetched - targetAmount - maxRequiredFee
      in
      if changeAmount \<noteq> 0 \<and> \<not> IsDustAmount P changeAmount (P2PKHPkScriptSize P) relayFeePerKb
      then
        (case fetchChange w of
           (Inl err, w') \<Rightarrow> (Inl (Collaborator err), w')
         | (Inr changeScript, w') \<Rightarrow>
             if int (length changeScript) > P2PKHPkScriptSize P
             then (Inl ChangeScriptTooLarge, w')
             else
               (let change = NewTxOut changeAmount changeScript;
                    l = length outputs
                in (Inr \<lparr>Tx = unsignedTransaction\<lparr>TxOut := outputs @ [change]\<rparr>,
                         PrevScripts = src_scripts fetched,
                         PrevInputValues = src_inputValues fetched,
                         TotalInput = src_total fetched,
                         ChangeIndex = int l\<rparr>, w')))
      else
        (Inr \<lparr>Tx = unsignedTransaction,
              PrevScripts = src_scripts fetched,
              PrevInputValues = src_inputValues fetched,
              TotalInput = src_total fetched,
              ChangeIndex = - 1\<rparr>, w))"

text \<open>
  The \<^verbatim>\<open>for\<close> loop of lines 87 to 135. It has no bound on its iterations, so
  the model is a partial function: \<open>None\<close> is a call that never returns. The
  sums and differences are those of \<^verbatim>\<open>int64\<close> and the comparisons are signed,
  as in the source.
\<close>

partial_function (option) negotiate ::
  "policy \<Rightarrow> TxOut list \<Rightarrow> Amount \<Rightarrow> ('e, 'w) InputSource \<Rightarrow> ('e, 'w) ChangeSource \<Rightarrow>
   Amount \<Rightarrow> Amount \<Rightarrow> 'w \<Rightarrow> (('e error + AuthoredTx) \<times> 'w) option" where
  "negotiate P outputs relayFeePerKb fetchInputs fetchChange targetAmount targetFee w =
     (case fetchInputs w (targetAmount + targetFee) of
        (Inl err, w') \<Rightarrow> Some (Inl (Collaborator err), w')
      | (Inr fetched, w') \<Rightarrow>
          if src_total fetched <s targetAmount + targetFee
          then Some (Inl InsufficientFundsError, w')
          else
            (let maxSignedSize = EstimateSerializeSize P (int (length (src_inputs fetched))) outputs True;
                 maxRequiredFee = FeeForSerializeSize P relayFeePerKb maxSignedSize;
                 remainingAmount = src_total fetched - targetAmount
             in
             if remainingAmount <s maxRequiredFee
             then negotiate P outputs relayFeePerKb fetchInputs fetchChange targetAmount
                    maxRequiredFee w'
             else Some (assemble P outputs relayFeePerKb fetchChange targetAmount fetched
                          maxRequiredFee w')))"

declare negotiate.simps [code]

definition NewUnsignedTransaction ::
  "policy \<Rightarrow> TxOut list \<Rightarrow> Amount \<Rightarrow> ('e, 'w) InputSource \<Rightarrow> ('e, 'w) ChangeSource \<Rightarrow>
   'w \<Rightarrow> (('e error + AuthoredTx) \<times> 'w) option" where
  "NewUnsignedTransaction P outputs relayFeePerKb fetchInputs fetchChange w =
     (let targetAmount = SumOutputValues outputs;
          estimatedSize = EstimateSerializeSize P 0 outputs True;
          targetFee = FeeForSerializeSize P relayFeePerKb estimatedSize
      in negotiate P outputs relayFeePerKb fetchInputs fetchChange targetAmount targetFee w)"

subsection \<open>Output randomization\<close>

text \<open>
  A Go call either returns or panics; a panic is an outcome of the model, never
  an unspecified value.
\<close>

datatype panic = IndexOutOfRange | InvalidArgument

datatype 'a outcome = Returns 'a | Panics panic

text \<open>
  \<^verbatim>\<open>RandomizeOutputPosition\<close>, lines 141 to 145. The generator \<^verbatim>\<open>cprng\<close> is
  outside the source file: \<open>Int31n\<close> is a parameter that gives the draw for an
  argument, or \<open>None\<close> where the generator panics. Its argument is
  \<^verbatim>\<open>int32(len(outputs))\<close>. The two reads of the swap come before its writes,
  so an index out of range panics before the slice changes. The slice is
  changed in place; the model returns the new slice with the result.
\<close>

definition RandomizeOutputPosition ::
  "(int \<Rightarrow> int option) \<Rightarrow> TxOut list \<Rightarrow> int \<Rightarrow> (TxOut list \<times> int) outcome" where
  "RandomizeOutputPosition Int31n outputs index =
     (case Int31n (sint (word_of_nat (length outputs) :: 32 word)) of
        None \<Rightarrow> Panics InvalidArgument
      | Some r \<Rightarrow>
          if 0 \<le> r \<and> r < int (length outputs) \<and> 0 \<le> index \<and> index < int (length outputs)
          then Returns (outputs[nat r := outputs ! nat index, nat index := outputs ! nat r], r)
          else Panics IndexOutOfRange)"

text \<open>\<^verbatim>\<open>RandomizeChangePosition\<close>, lines 149 to 151.\<close>

definition RandomizeChangePosition ::
  "(int \<Rightarrow> int option) \<Rightarrow> AuthoredTx \<Rightarrow> AuthoredTx outcome" where
  "RandomizeChangePosition Int31n tx =
     (case RandomizeOutputPosition Int31n (TxOut (Tx tx)) (ChangeIndex tx) of
        Panics p \<Rightarrow> Panics p
      | Returns (outputs', r) \<Rightarrow>
          Returns (tx\<lparr>Tx := (Tx tx)\<lparr>TxOut := outputs'\<rparr>, ChangeIndex := r\<rparr>))"

subsection \<open>AddAllInputScripts\<close>

text \<open>
  What the signing pass takes from outside the source file:
  \<^verbatim>\<open>txscript.ExtractPkScriptAddrs\<close> at the chain parameters of the secrets
  source (only its address list and its error are used), \<^verbatim>\<open>secrets.GetKey\<close>,
  \<^verbatim>\<open>txscript.SignatureScript\<close> at \<^verbatim>\<open>SigHashAll\<close> (here
  \<open>txscript_SignatureScript\<close>, apart from the field of an input; it reads the
  transaction, and so the store of its inputs), and the conversion
  \<^verbatim>\<open>int64(amount.ToUnit(czzutil.AmountSatoshi))\<close>, which goes through a
  floating-point number.
\<close>

record ('e, 'a, 'k) signer =
  ExtractPkScriptAddrs :: "script \<Rightarrow> 'e + 'a list"
  GetKey :: "'a \<Rightarrow> 'e + ('k \<times> bool)"
  txscript_SignatureScript ::
    "MsgTx \<Rightarrow> TxInStore \<Rightarrow> int \<Rightarrow> 64 word \<Rightarrow> script \<Rightarrow> 'k \<Rightarrow> bool \<Rightarrow> 'e + script"
  ToSatoshi :: "Amount \<Rightarrow> 64 word"

text \<open>
  The body of the loop of lines 185 to 204, at the position \<open>i\<close>. The body
  writes \<^verbatim>\<open>inputs[i].SignatureScript\<close> through the pointer at the position
  \<open>i\<close>, so the model returns the store with the outcome: a panic, a returned
  error, or \<open>Returns None\<close> where the body comes to its end and the loop goes
  on. The slice of pointers itself is never changed. The arguments of
  \<^verbatim>\<open>txscript.SignatureScript\<close> are evaluated before the call, so a missing
  \<^verbatim>\<open>inputValues[i]\<close> panics first.
\<close>

definition sign_input ::
  "('e, 'a, 'k) signer \<Rightarrow> script list \<Rightarrow> Amount list \<Rightarrow> nat \<Rightarrow> MsgTx \<Rightarrow> TxInStore \<Rightarrow>
   'e error option outcome \<times> TxInStore" where
  "sign_input S prevPkScripts inputValues i tx h =
     (if length prevPkScripts \<le> i then (Panics IndexOutOfRange, h)
      else
        (let pkScript = prevPkScripts ! i in
         case ExtractPkScriptAddrs S pkScript of
           Inl err \<Rightarrow> (Returns (Some (Collaborator err)), h)
         | Inr addrs \<Rightarrow>
             (case addrs of
                [] \<Rightarrow> (Panics IndexOutOfRange, h)
              | addr # _ \<Rightarrow>
                  (case GetKey S addr of
                     Inl err \<Rightarrow> (Returns (Some (Collaborator err)), h)
                   | Inr (privKey, compressed) \<Rightarrow>
                       if length inputValues \<le> i then (Panics IndexOutOfRange, h)
                       else
                         (case txscript_SignatureScript S tx h (int i)
                                 (ToSatoshi S (inputValues ! i)) pkScript privKey compressed of
                            Inl err \<Rightarrow> (Returns (Some (Collaborator err)), h)
                          | Inr sigScript \<Rightarrow>
                              if length (TxIn tx) \<le> i then (Panics IndexOutOfRange, h)
                              else
                                (Returns None,
                                 h(TxIn tx ! i :=
                                     (h (TxIn tx ! i))\<lparr>SignatureScript := sigScript\<rparr>)))))))"

text \<open>
  The loop over the positions still to sign: it stops at the first body that
  does not come to its end.
\<close>

fun sign_inputs ::
  "('e, 'a, 'k) signer \<Rightarrow> script list \<Rightarrow> Amount list \<Rightarrow> nat list \<Rightarrow> MsgTx \<Rightarrow> TxInStore \<Rightarrow>
   'e error option outcome \<times> TxInStore" where
  "sign_inputs S prevPkScripts inputValues [] tx h = (Returns None, h)"
| "sign_inputs S prevPkScripts inputValues (i # rest) tx h =
     (case sign_input S prevPkScripts inputValues i tx h of
        (Returns None, h') \<Rightarrow> sign_inputs S prevPkScripts inputValues rest tx h'
      | (Returns (Some err), h') \<Rightarrow> (Returns (Some err), h')
      | (Panics p, h') \<Rightarrow> (Panics p, h'))"

text \<open>\<^verbatim>\<open>AddAllInputScripts\<close>, lines 174 to 207.\<close>

definition AddAllInputScripts ::
  "('e, 'a, 'k) signer \<Rightarrow> MsgTx \<Rightarrow> script list \<Rightarrow> Amount list \<Rightarrow> TxInStore \<Rightarrow>
   'e error option outcome \<times> TxInStore" where
  "AddAllInputScripts S tx prevPkScripts inputValues h =
     (if length (TxIn tx) \<noteq> length prevPkScripts
      then (Returns (Some SliceLengthMismatch), h)
      else sign_inputs S prevPkScripts inputValues [0..<length (TxIn tx)] tx h)"

text \<open>The method of \<^verbatim>\<open>AuthoredTx\<close>, lines 212 to 214.\<close>

definition AuthoredTx_AddAllInputScripts ::
  "('e, 'a, 'k) signer \<Rightarrow> AuthoredTx \<Rightarrow> TxInStore \<Rightarrow> 'e error option outcome \<times> TxInStore" where
  "AuthoredTx_AddAllInputScripts S atx h =
     AddAllInputScripts S (Tx atx) (PrevScripts atx) (PrevInputValues atx) h"

subsection \<open>Observing the calls of the collaborators\<close>

text \<open>
  To count how often a run consults its collaborators, the world is paired
  with two counters: the calls of the input source and the calls of the change
  source. The counting callbacks behave as the given ones and step their own
  counter.
\<close>

definition counting_inputs ::
  "('e, 'w) InputSource \<Rightarrow> ('e, 'w \<times> nat \<times> nat) InputSource" where
  "counting_inputs fetchInputs =
     (\<lambda>(w, ni, nc) target. case fetchInputs w target of (r, w') \<Rightarrow> (r, (w', Suc ni, nc)))"

definition counting_change ::
  "('e, 'w) ChangeSource \<Rightarrow> ('e, 'w \<times> nat \<times> nat) ChangeSource" where
  "counting_change fetchChange =
     (\<lambda>(w, ni, nc). case fetchChange w of (r, w') \<Rightarrow> (r, (w', ni, Suc nc)))"

subsection \<open>The iterations of the negotiation loop\<close>

text \<open>
  \<open>retargets P outputs rate fetchInputs target st (fee, w)\<close>: the loop started
  in the state \<open>st\<close> (a fee estimate and a world) comes, after some number of
  \<^verbatim>\<open>continue\<close> steps, to an iteration with the fee estimate \<open>fee\<close> in the world
  \<open>w\<close>. A \<^verbatim>\<open>continue\<close> is taken when the inputs cover the target and the
  estimate but not the fee for their own number. \<open>requiredFee\<close> is that fee,
  the \<^verbatim>\<open>maxRequiredFee\<close> of the source for \<open>n\<close> inputs; the first estimate of
  the source is \<open>requiredFee\<close> for no input.
\<close>

definition requiredFee :: "policy \<Rightarrow> TxOut list \<Rightarrow> Amount \<Rightarrow> nat \<Rightarrow> Amount" where
  "requiredFee P outputs relayFeePerKb n =
     FeeForSerializeSize P relayFeePerKb (EstimateSerializeSize P (int n) outputs True)"

inductive retargets ::
  "policy \<Rightarrow> TxOut list \<Rightarrow> Amount \<Rightarrow> ('e, 'w) InputSource \<Rightarrow> Amount \<Rightarrow>
   Amount \<times> 'w \<Rightarrow> Amount \<times> 'w \<Rightarrow> bool"
  for P outputs relayFeePerKb fetchInputs targetAmount st where
  start: "retargets P outputs relayFeePerKb fetchInputs targetAmount st st"
| again: "retargets P outputs relayFeePerKb fetchInputs targetAmount st (targetFee, w) \<Longrightarrow>
          fetchInputs w (targetAmount + targetFee) = (Inr fetched, w') \<Longrightarrow>
          \<not> src_total fetched <s targetAmount + targetFee \<Longrightarrow>
          maxRequiredFee = requiredFee P outputs relayFeePerKb (length (src_inputs fetched)) \<Longrightarrow>
          src_total fetched - targetAmount <s maxRequiredFee \<Longrightarrow>
          retargets P outputs relayFeePerKb fetchInputs targetAmount st (maxRequiredFee, w')"

subsection \<open>Example collaborators\<close>

text \<open>
  Concrete collaborators on which the theorems are exercised. The policy
  follows the spec: the size is a fixed overhead plus a bound per input
  plus the size of each output, with room for one change output; the fee is
  linear in the size; an amount is dust when a third of it does not pay for
  spending it.
\<close>

definition example_policy :: policy where
  "example_policy =
     \<lparr>EstimateSerializeSize =
        (\<lambda>inputCount txOuts addChangeOutput.
           10 + 148 * inputCount + sum_list (map (\<lambda>txOut. 9 + int (length (PkScript txOut))) txOuts)
           + (if addChangeOutput then 34 else 0)),
      FeeForSerializeSize = (\<lambda>relayFeePerKb size. word_of_int (sint relayFeePerKb * size div 1000)),
      IsDustAmount =
        (\<lambda>amount scriptSize relayFeePerKb.
           sint amount * 1000 div (3 * (scriptSize + 157)) < sint relayFeePerKb),
      P2PKHPkScriptSize = 25,
      TxVersion = 1\<rparr>"

definition example_script :: script where
  "example_script = replicate 25 0"

definition example_outputs :: "TxOut list" where
  "example_outputs = [\<lparr>Value = 50000, PkScript = example_script\<rparr>]"

text \<open>Two input objects, by their pointers, and a store of unsigned inputs.\<close>

definition example_input :: TxInPtr where
  "example_input = 0"

definition other_input :: TxInPtr where
  "other_input = 1"

definition example_store :: TxInStore where
  "example_store = (\<lambda>p. \<lparr>PreviousOutPoint = ([], word_of_nat p), SignatureScript = []\<rparr>)"

text \<open>An input source that owns one coin of the value \<open>v\<close>, whatever is asked.\<close>

definition one_coin :: "Amount \<Rightarrow> (unit, unit) InputSource" where
  "one_coin v =
     (\<lambda>w target. (Inr \<lparr>src_total = v, src_inputs = [example_input], src_inputValues = [v],
                        src_scripts = [example_script]\<rparr>, w))"

text \<open>
  An input source that returns exactly what is asked, from one input up to
  the target 50200 and from two inputs above it.
\<close>

definition exact_source :: "(unit, unit) InputSource" where
  "exact_source =
     (\<lambda>w target.
        (Inr (if target \<le>s 50200
              then \<lparr>src_total = target, src_inputs = [example_input], src_inputValues = [target],
                    src_scripts = [example_script]\<rparr>
              else \<lparr>src_total = target, src_inputs = [example_input, other_input],
                    src_inputValues = [50200, target - 50200],
                    src_scripts = [example_script, example_script]\<rparr>), w))"

text \<open>An input source that returns exactly what is asked, always from one input.\<close>

definition exact_one_input :: "(unit, unit) InputSource" where
  "exact_one_input =
     (\<lambda>w target. (Inr \<lparr>src_total = target, src_inputs = [example_input], src_inputValues = [target],
                        src_scripts = [example_script]\<rparr>, w))"

definition change_of :: "script \<Rightarrow> (unit, unit) ChangeSource" where
  "change_of s = (\<lambda>w. (Inr s, w))"

text \<open>
  A signer whose addresses are the scripts themselves: the empty script has
  no address, the script \<open>[0]\<close> cannot be parsed, the script \<open>[1]\<close> has an
  address without a key, the script \<open>[3]\<close> cannot be signed for, and a
  signature script is the previous script behind a marker byte.
\<close>

definition example_signer :: "(string, script, script) signer" where
  "example_signer =
     \<lparr>ExtractPkScriptAddrs =
        (\<lambda>pkScript. if pkScript = [] then Inr []
                    else if pkScript = [0] then Inl ''no identity''
                    else Inr [pkScript]),
      GetKey = (\<lambda>addr. if addr = [1] then Inl ''no key'' else Inr (addr, True)),
      txscript_SignatureScript =
        (\<lambda>tx h idx amt pkScript privKey compressed.
           if pkScript = [3] then Inl ''no signature'' else Inr (255 # pkScript)),
      ToSatoshi = (\<lambda>amount. amount)\<rparr>"

text \<open>A transaction of \<open>n\<close> inputs, the objects \<open>0\<close> to \<open>n - 1\<close>.\<close>

definition example_tx :: "nat \<Rightarrow> MsgTx" where
  "example_tx n = \<lparr>Version = 1, TxIn = [0..<n], TxOut = example_outputs, LockTime = 0\<rparr>"

text \<open>A transaction whose two positions hold the same input object.\<close>

definition example_shared_tx :: MsgTx where
  "example_shared_tx =
     \<lparr>Version = 1, TxIn = [example_input, example_input], TxOut = example_outputs,
      LockTime = 0\<rparr>"

text \<open>The authored transactions that the example runs return.\<close>

definition example_dust_tx :: AuthoredTx where
  "example_dust_tx =
     \<lparr>Tx = \<lparr>Version = 1, TxIn = [example_input], TxOut = example_outputs, LockTime = 0\<rparr>,
      PrevScripts = [example_script], PrevInputValues = [50326],
      TotalInput = 50326, ChangeIndex = - 1\<rparr>"

definition example_change_tx :: AuthoredTx where
  "example_change_tx =
     \<lparr>Tx = \<lparr>Version = 1, TxIn = [example_input],
             TxOut = example_outputs @ [\<lparr>Value = 9774, PkScript = example_script\<rparr>],
             LockTime = 0\<rparr>,
      PrevScripts = [example_script], PrevInputValues = [60000],
      TotalInput = 60000, ChangeIndex = 1\<rparr>"

definition example_exact_tx :: AuthoredTx where
  "example_exact_tx =
     \<lparr>Tx = \<lparr>Version = 1, TxIn = [example_input, other_input], TxOut = example_outputs,
             LockTime = 0\<rparr>,
      PrevScripts = [example_script, example_script], PrevInputValues = [50200, 174],
      TotalInput = 50374, ChangeIndex = - 1\<rparr>"

text \<open>The store after the first input was signed for the previous script \<open>[2]\<close>.\<close>

definition example_partly_signed :: TxInStore where
  "example_partly_signed = example_store(0 := (example_store 0)\<lparr>SignatureScript := [255, 2]\<rparr>)"

definition example_three_outputs :: "TxOut list" where
  "example_three_outputs =
     [\<lparr>Value = 1, PkScript = []\<rparr>, \<lparr>Value = 2, PkScript = []\<rparr>, \<lparr>Value = 3, PkScript = []\<rparr>]"

text \<open>A generator that draws the last position.\<close>

definition last_position :: "int \<Rightarrow> int option" where
  "last_position n = (if 0 < n then Some (n - 1) else None)"

subsection \<open>Auxiliary notions of the proofs\<close>

text \<open>
  \<open>returns_at\<close>: the iteration with the fee estimate \<open>tf\<close> in the world \<open>w\<close>
  leaves the loop with the result \<open>res\<close>.
\<close>

definition returns_at ::
  "policy \<Rightarrow> TxOut list \<Rightarrow> Amount \<Rightarrow> ('e, 'w) InputSource \<Rightarrow> ('e, 'w) ChangeSource \<Rightarrow>
   Amount \<Rightarrow> Amount \<Rightarrow> 'w \<Rightarrow> ('e error + AuthoredTx) \<times> 'w \<Rightarrow> bool" where
  "returns_at P outputs rate fi fc target tf w res \<longleftrightarrow>
     (case fi w (target + tf) of
        (Inl err, w') \<Rightarrow> res = (Inl (Collaborator err), w')
      | (Inr fetched, w') \<Rightarrow>
          if src_total fetched <s target + tf then res = (Inl InsufficientFundsError, w')
          else \<not> src_total fetched - target <s requiredFee P outputs rate (length (src_inputs fetched))
             \<and> res = assemble P outputs rate fc target fetched
                       (requiredFee P outputs rate (length (src_inputs fetched))) w')"

text \<open>
  A signer that keeps only the first address of every extraction, and is the
  given signer otherwise.
\<close>

definition first_identity_only :: "('e, 'a, 'k) signer \<Rightarrow> ('e, 'a, 'k) signer" where
  "first_identity_only S =
     S\<lparr>ExtractPkScriptAddrs := (\<lambda>pkScript. map_sum id (take 1) (ExtractPkScriptAddrs S pkScript))\<rparr>"

section \<open>The negotiation loop\<close>

subsection \<open>Unfolding the loop\<close>

lemma negotiate_unfold:
  "negotiate P outputs rate fi fc target tf w =
     (case fi w (target + tf) of
        (Inl err, w') \<Rightarrow> Some (Inl (Collaborator err), w')
      | (Inr fetched, w') \<Rightarrow>
          if src_total fetched <s target + tf then Some (Inl InsufficientFundsError, w')
          else if src_total fetched - target <s requiredFee P outputs rate (length (src_inputs fetched))
          then negotiate P outputs rate fi fc target
                 (requiredFee P outputs rate (length (src_inputs fetched))) w'
          else Some (assemble P outputs rate fc target fetched
                       (requiredFee P outputs rate (length (src_inputs fetched))) w'))"
  by (subst negotiate.simps) (simp add: requiredFee_def Let_def split: prod.split sum.split)

lemma NewUnsignedTransaction_negotiate:
  "NewUnsignedTransaction P outputs rate fi fc w =
     negotiate P outputs rate fi fc (SumOutputValues outputs) (requiredFee P outputs rate 0) w"
  by (simp add: NewUnsignedTransaction_def requiredFee_def)

lemma negotiate_continue:
  assumes "fi w (target + tf) = (Inr fetched, w')"
    and "\<not> src_total fetched <s target + tf"
    and "src_total fetched - target <s requiredFee P outputs rate (length (src_inputs fetched))"
  shows "negotiate P outputs rate fi fc target tf w =
         negotiate P outputs rate fi fc target
           (requiredFee P outputs rate (length (src_inputs fetched))) w'"
  using assms by (subst negotiate_unfold) simp

lemma negotiate_shortfall:
  assumes "fi w (target + tf) = (Inr fetched, w')"
    and "src_total fetched <s target + tf"
  shows "negotiate P outputs rate fi fc target tf w = Some (Inl InsufficientFundsError, w')"
  using assms by (subst negotiate_unfold) simp

lemma negotiate_converged:
  assumes "fi w (target + tf) = (Inr fetched, w')"
    and "\<not> src_total fetched <s target + tf"
    and "\<not> src_total fetched - target <s requiredFee P outputs rate (length (src_inputs fetched))"
  shows "negotiate P outputs rate fi fc target tf w =
         Some (assemble P outputs rate fc target fetched
                 (requiredFee P outputs rate (length (src_inputs fetched))) w')"
  using assms by (subst negotiate_unfold) simp

text \<open>
  The loop is a tail call: started in a state from which it comes to another
  state, it returns what it returns from there.
\<close>

lemma negotiate_retargets:
  assumes "retargets P outputs rate fi target st st'"
  shows "negotiate P outputs rate fi fc target (fst st) (snd st) =
         negotiate P outputs rate fi fc target (fst st') (snd st')"
  using assms
proof (induction rule: retargets.induct)
  case start
  show ?case by simp
next
  case (again targetFee w fetched w' maxRequiredFee)
  then show ?case by (simp add: negotiate_continue)
qed

lemma negotiate_at_iteration:
  fixes fi :: "('e, 'w) InputSource" and fc :: "('e, 'w) ChangeSource"
  assumes "retargets P outputs rate fi (SumOutputValues outputs)
             (requiredFee P outputs rate 0, w0) (tf, w)"
  shows "NewUnsignedTransaction P outputs rate fi fc w0 =
         negotiate P outputs rate fi fc (SumOutputValues outputs) tf w"
  using negotiate_retargets [OF assms, of fc] by (simp add: NewUnsignedTransaction_negotiate)

lemma retargets_first:
  assumes "retargets P outputs rate fi target st1 st2"
    and "fi w (target + tf) = (Inr fetched, w')"
    and "\<not> src_total fetched <s target + tf"
    and "src_total fetched - target <s requiredFee P outputs rate (length (src_inputs fetched))"
    and "st1 = (requiredFee P outputs rate (length (src_inputs fetched)), w')"
  shows "retargets P outputs rate fi target (tf, w) st2"
  using assms
proof (induction rule: retargets.induct)
  case start
  have "retargets P outputs rate fi target (tf, w) (tf, w)"
    by (rule retargets.start)
  from retargets.again [OF this start(1) start(2) refl start(3)] start(4)
  show ?case by simp
next
  case (again targetFee w1 fetched1 w1' maxRequiredFee)
  from again.IH [OF again.prems] again.hyps(2-5)
  show ?case by (rule retargets.again)
qed

text \<open>The counting input source takes the same steps and counts them.\<close>

lemma retargets_counting:
  assumes "retargets P outputs rate fi target st st'"
  shows "\<exists>k. retargets P outputs rate (counting_inputs fi) target
           (fst st, (snd st, ni, nc)) (fst st', (snd st', ni + k, nc))"
  using assms
proof (induction rule: retargets.induct)
  case start
  have "retargets P outputs rate (counting_inputs fi) target
           (fst st, (snd st, ni, nc)) (fst st, (snd st, ni + 0, nc))"
    by (simp add: retargets.start)
  then show ?case by blast
next
  case (again targetFee w fetched w' maxRequiredFee)
  then obtain k where k: "retargets P outputs rate (counting_inputs fi) target
           (fst st, (snd st, ni, nc)) (targetFee, (w, ni + k, nc))"
    by auto
  have "counting_inputs fi (w, ni + k, nc) (target + targetFee) =
        (Inr fetched, (w', ni + Suc k, nc))"
    using again.hyps(2) by (simp add: counting_inputs_def)
  from retargets.again [OF k this again.hyps(3) again.hyps(4) again.hyps(5)]
  have "retargets P outputs rate (counting_inputs fi) target
           (fst st, (snd st, ni, nc))
           (fst (maxRequiredFee, w'), (snd (maxRequiredFee, w'), ni + Suc k, nc))"
    by simp
  then show ?case by blast
qed

subsection \<open>Every result comes from a last iteration\<close>

lemmas negotiate_induct = negotiate.raw_induct
    [where Pa = "\<lambda>(((((((P, outputs), rate), fi), fc), target), tf), w) res.
        Q P outputs rate fi fc target tf w res", unfolded prod.case] for Q

lemma negotiate_last_iteration:
  fixes fi :: "('e, 'w) InputSource" and fc :: "('e, 'w) ChangeSource"
  assumes "negotiate P outputs rate fi fc target tf w = Some res"
  shows "\<exists>tf' w0. retargets P outputs rate fi target (tf, w) (tf', w0) \<and>
           returns_at P outputs rate fi fc target tf' w0 res"
proof (rule negotiate_induct [where Q = "\<lambda>P outputs rate fi fc target tf w res.
          \<exists>tf' w0. retargets P outputs rate fi target (tf, w) (tf', w0) \<and>
           returns_at P outputs rate fi fc target tf' w0 res", OF _ assms])
  fix neg :: "policy \<Rightarrow> TxOut list \<Rightarrow> Amount \<Rightarrow> ('e, 'w) InputSource \<Rightarrow>
      ('e, 'w) ChangeSource \<Rightarrow> Amount \<Rightarrow> Amount \<Rightarrow> 'w \<Rightarrow> (('e error + AuthoredTx) \<times> 'w) option"
    and P outputs rate and fi :: "('e, 'w) InputSource" and fc :: "('e, 'w) ChangeSource"
    and target tf w res
  assume IH: "\<And>P outputs rate fi fc target tf w y.
            neg P outputs rate fi fc target tf w = Some y \<Longrightarrow>
            \<exists>tf' w0. retargets P outputs rate fi target (tf, w) (tf', w0) \<and>
               returns_at P outputs rate fi fc target tf' w0 y"
  assume body: "(case fi w (target + tf) of
          (Inl err, w') \<Rightarrow> Some (Inl (Collaborator err), w')
          | (Inr fetched, w') \<Rightarrow>
              if src_total fetched <s target + tf
              then Some (Inl InsufficientFundsError, w')
              else let maxSignedSize =
                         EstimateSerializeSize P
                          (int (length (src_inputs fetched))) outputs True;
                       maxRequiredFee =
                         FeeForSerializeSize P rate maxSignedSize;
                       remainingAmount = src_total fetched - target
                   in if remainingAmount <s maxRequiredFee
                      then neg P outputs rate fi
                            fc target maxRequiredFee w'
                      else Some
                            (assemble P outputs rate fc
                              target fetched maxRequiredFee w')) =
         Some res"
  obtain r w' where Pair: "fi w (target + tf) = (r, w')"
    by (cases "fi w (target + tf)")
  show "\<exists>tf' w0. retargets P outputs rate fi target (tf, w) (tf', w0) \<and>
           returns_at P outputs rate fi fc target tf' w0 res"
  proof (cases r)
    case (Inl err)
    with Pair body have "returns_at P outputs rate fi fc target tf w res"
      by (auto simp: returns_at_def)
    then show ?thesis using retargets.start by blast
  next
    case (Inr fetched)
    show ?thesis
    proof (cases "\<not> src_total fetched <s target + tf \<and>
        src_total fetched - target <s requiredFee P outputs rate (length (src_inputs fetched))")
      case True
      with Pair Inr body have "neg P outputs rate fi fc target
          (requiredFee P outputs rate (length (src_inputs fetched))) w' = Some res"
        by (simp add: requiredFee_def Let_def)
      from IH [OF this] obtain tf' w0 where
        r: "retargets P outputs rate fi target
              (requiredFee P outputs rate (length (src_inputs fetched)), w') (tf', w0)"
        and l: "returns_at P outputs rate fi fc target tf' w0 res"
        by blast
      from True have a: "\<not> src_total fetched <s target + tf"
        and b: "src_total fetched - target
                  <s requiredFee P outputs rate (length (src_inputs fetched))"
        by simp_all
      have "retargets P outputs rate fi target (tf, w) (tf', w0)"
        using retargets_first [OF r _ a b refl] Pair Inr by simp
      with l show ?thesis by blast
    next
      case False
      with Pair Inr body have "returns_at P outputs rate fi fc target tf w res"
        by (auto simp: returns_at_def requiredFee_def Let_def split: if_splits)
      then show ?thesis using retargets.start by blast
    qed
  qed
qed

subsection \<open>Assembling the transaction\<close>

lemma SumOutputValues_snoc:
  "SumOutputValues (outputs @ [txOut]) = SumOutputValues outputs + Value txOut"
  by (simp add: SumOutputValues_def)

lemma assemble_Inr:
  assumes "assemble P outputs rate fc target fetched fee w = (Inr atx, w')"
  defines "changeAmount \<equiv> src_total fetched - target - fee"
  shows "TotalInput atx = src_total fetched \<and> TxIn (Tx atx) = src_inputs fetched \<and>
         PrevScripts atx = src_scripts fetched \<and> PrevInputValues atx = src_inputValues fetched \<and>
         ((ChangeIndex atx = - 1 \<and> TxOut (Tx atx) = outputs \<and>
             (changeAmount = 0 \<or> IsDustAmount P changeAmount (P2PKHPkScriptSize P) rate)) \<or>
          (ChangeIndex atx = int (length outputs) \<and>
             (\<exists>changeScript. TxOut (Tx atx) = outputs @ [NewTxOut changeAmount changeScript] \<and>
                int (length changeScript) \<le> P2PKHPkScriptSize P) \<and>
             changeAmount \<noteq> 0 \<and> \<not> IsDustAmount P changeAmount (P2PKHPkScriptSize P) rate))"
  using assms(1) unfolding changeAmount_def assemble_def Let_def
  by (auto split: if_splits prod.splits sum.splits)

lemma assemble_oversized:
  assumes "changeAmount = src_total fetched - target - fee"
    and "changeAmount \<noteq> 0"
    and "\<not> IsDustAmount P changeAmount (P2PKHPkScriptSize P) rate"
    and "fc w = (Inr changeScript, w')"
    and "P2PKHPkScriptSize P < int (length changeScript)"
  shows "assemble P outputs rate fc target fetched fee w = (Inl ChangeScriptTooLarge, w')"
  using assms by (simp add: assemble_def)

lemma assemble_counting:
  "\<exists>res w' c. assemble P outputs rate (counting_change fc) target fetched fee (w, k, 0)
       = (res, (w', k, c)) \<and> c \<le> 1"
  by (cases "fc w") (auto simp: assemble_def counting_change_def Let_def split: sum.splits)

lemma NewUnsignedTransaction_Inr:
  fixes fi :: "('e, 'w) InputSource" and fc :: "('e, 'w) ChangeSource"
  assumes "NewUnsignedTransaction P outputs rate fi fc w = Some (Inr atx, w')"
  shows "\<exists>fetched w1. assemble P outputs rate fc (SumOutputValues outputs) fetched
            (requiredFee P outputs rate (length (src_inputs fetched))) w1 = (Inr atx, w')"
proof -
  from assms have "negotiate P outputs rate fi fc (SumOutputValues outputs)
      (requiredFee P outputs rate 0) w = Some (Inr atx, w')"
    by (simp add: NewUnsignedTransaction_negotiate)
  from negotiate_last_iteration [OF this] obtain tf' w0 where
    "returns_at P outputs rate fi fc (SumOutputValues outputs) tf' w0 (Inr atx, w')"
    by blast
  then show ?thesis
    unfolding returns_at_def
    by (auto split: prod.splits sum.splits if_splits)
qed

subsection \<open>The example runs\<close>

lemma run_with_dust_change:
  "NewUnsignedTransaction example_policy example_outputs 1000 (one_coin 50326)
     (change_of example_script) () = Some (Inr example_dust_tx, ())"
  by (simp add: NewUnsignedTransaction_def negotiate.simps assemble_def one_coin_def
      example_policy_def example_outputs_def example_script_def SumOutputValues_def
      example_dust_tx_def)

lemma run_with_change:
  "NewUnsignedTransaction example_policy example_outputs 1000 (one_coin 60000)
     (change_of example_script) () = Some (Inr example_change_tx, ())"
  by (simp add: NewUnsignedTransaction_def negotiate.simps assemble_def one_coin_def
      example_policy_def example_outputs_def example_script_def SumOutputValues_def
      change_of_def NewTxOut_def example_change_tx_def)

lemma example_target: "SumOutputValues example_outputs = 50000"
  by (simp add: SumOutputValues_def example_outputs_def)

lemma example_fee_0: "requiredFee example_policy example_outputs 1000 0 = 78"
  by (simp add: requiredFee_def example_policy_def example_outputs_def example_script_def)

lemma example_fee_1: "requiredFee example_policy example_outputs 1000 (Suc 0) = 226"
  by (simp add: requiredFee_def example_policy_def example_outputs_def example_script_def)

lemma example_fee_2: "requiredFee example_policy example_outputs 1000 (Suc (Suc 0)) = 374"
  by (simp add: requiredFee_def example_policy_def example_outputs_def example_script_def)

text \<open>
  With one coin of 50100 the loop takes one more turn: the answer covers the
  target and the first estimate, but not the fee for one input.
\<close>

lemma one_coin_retargets:
  "retargets example_policy example_outputs 1000 (one_coin 50100)
     (SumOutputValues example_outputs)
     (requiredFee example_policy example_outputs 1000 0, ())
     (requiredFee example_policy example_outputs 1000 (Suc 0), ())"
proof -
  let ?fetched = "\<lparr>src_total = 50100, src_inputs = [example_input], src_inputValues = [50100],
                   src_scripts = [example_script]\<rparr>"
  have 0: "retargets example_policy example_outputs 1000 (one_coin 50100)
     (SumOutputValues example_outputs)
     (requiredFee example_policy example_outputs 1000 0, ())
     (requiredFee example_policy example_outputs 1000 0, ())"
    by (rule retargets.start)
  have 1: "one_coin 50100 ()
      (SumOutputValues example_outputs + requiredFee example_policy example_outputs 1000 0) =
      (Inr ?fetched, ())"
    by (simp add: one_coin_def)
  have 2: "\<not> src_total ?fetched
      <s SumOutputValues example_outputs + requiredFee example_policy example_outputs 1000 0"
    by (simp add: example_target example_fee_0)
  have 3: "requiredFee example_policy example_outputs 1000 (Suc 0) =
      requiredFee example_policy example_outputs 1000 (length (src_inputs ?fetched))"
    by simp
  have 4: "src_total ?fetched - SumOutputValues example_outputs
      <s requiredFee example_policy example_outputs 1000 (Suc 0)"
    by (simp add: example_target example_fee_1)
  show ?thesis
    by (rule retargets.again [OF 0 1 2 3 4])
qed

section \<open>Claims about NewUnsignedTransaction\<close>

text \<open>
  Claim C1, as amended. When \<^verbatim>\<open>NewUnsignedTransaction\<close> succeeds, take the
  total input less the sum of the values of all outputs of the returned
  transaction (a change output included) less the required fee for the
  returned number of inputs. With a change output this rest is exactly zero.
  Without a change output the rest is the change the builder did not return:
  it is zero, or it is an amount the dust predicate rejects for a script of
  P2PKH size at the given fee rate, and it is left to the fee.
\<close>

theorem conservation_of_value:
  fixes fi :: "('e, 'w) InputSource" and fc :: "('e, 'w) ChangeSource"
  assumes "NewUnsignedTransaction P outputs rate fi fc w = Some (Inr atx, w')"
  shows "(let fee = requiredFee P outputs rate (length (TxIn (Tx atx)));
              rest = TotalInput atx - SumOutputValues (TxOut (Tx atx)) - fee
          in (0 \<le> ChangeIndex atx \<longrightarrow> rest = 0) \<and>
             (ChangeIndex atx < 0 \<longrightarrow>
                rest = 0 \<or> IsDustAmount P rest (P2PKHPkScriptSize P) rate))"
proof -
  from NewUnsignedTransaction_Inr [OF assms] obtain fetched w1 where
    "assemble P outputs rate fc (SumOutputValues outputs) fetched
       (requiredFee P outputs rate (length (src_inputs fetched))) w1 = (Inr atx, w')"
    by blast
  from assemble_Inr [OF this] show ?thesis
    by (auto simp: Let_def SumOutputValues_snoc NewTxOut_def)
qed

text \<open>
  The amended claim C1 on a run that returns change: one coin of 60000 pays
  the output of 50000 and the fee of 226, and 9774 come back as change.
\<close>

theorem conservation_of_value_witness:
  "NewUnsignedTransaction example_policy example_outputs 1000 (one_coin 60000)
     (change_of example_script) () = Some (Inr example_change_tx, ()) \<and>
   (let fee = requiredFee example_policy example_outputs 1000
                (length (TxIn (Tx example_change_tx)));
        rest = TotalInput example_change_tx - SumOutputValues (TxOut (Tx example_change_tx)) - fee
    in (0 \<le> ChangeIndex example_change_tx \<longrightarrow> rest = 0) \<and>
       (ChangeIndex example_change_tx < 0 \<longrightarrow>
          rest = 0 \<or> IsDustAmount example_policy rest (P2PKHPkScriptSize example_policy) 1000))"
proof -
  have h: "NewUnsignedTransaction example_policy example_outputs 1000 (one_coin 60000)
     (change_of example_script) () = Some (Inr example_change_tx, ())"
    by (rule run_with_change)
  show ?thesis
    using h conservation_of_value [OF h] by simp
qed

text \<open>
  Claim C1 as stated fails. One coin of 50326 pays the output of 50000 and
  the fee of 226; the 100 left over are dust, so no change output is added and
  total input less outputs less fee is 100, not zero.
\<close>

theorem conservation_counterexample:
  "NewUnsignedTransaction example_policy example_outputs 1000 (one_coin 50326)
     (change_of example_script) () = Some (Inr example_dust_tx, ()) \<and>
   TotalInput example_dust_tx - SumOutputValues (TxOut (Tx example_dust_tx))
     - requiredFee example_policy example_outputs 1000 (length (TxIn (Tx example_dust_tx)))
   = 100"
  using run_with_dust_change example_target example_fee_1
  by (simp add: example_dust_tx_def)

text \<open>
  Claim C2. When \<^verbatim>\<open>NewUnsignedTransaction\<close> succeeds with a change output
  (\<^verbatim>\<open>ChangeIndex >= 0\<close>), the change index is a position of the returned
  outputs, and the output there has a value that is not zero and that the dust
  predicate accepts for a script of P2PKH size at the given fee rate.
\<close>

theorem change_is_not_dust:
  fixes fi :: "('e, 'w) InputSource" and fc :: "('e, 'w) ChangeSource"
  assumes "NewUnsignedTransaction P outputs rate fi fc w = Some (Inr atx, w')"
    and "0 \<le> ChangeIndex atx"
  shows "nat (ChangeIndex atx) < length (TxOut (Tx atx)) \<and>
         Value (TxOut (Tx atx) ! nat (ChangeIndex atx)) \<noteq> 0 \<and>
         \<not> IsDustAmount P (Value (TxOut (Tx atx) ! nat (ChangeIndex atx)))
              (P2PKHPkScriptSize P) rate"
proof -
  from NewUnsignedTransaction_Inr [OF assms(1)] obtain fetched w1 where
    "assemble P outputs rate fc (SumOutputValues outputs) fetched
       (requiredFee P outputs rate (length (src_inputs fetched))) w1 = (Inr atx, w')"
    by blast
  from assemble_Inr [OF this] assms(2) show ?thesis
    by (auto simp: NewTxOut_def)
qed

text \<open>Claim C2 on the run that returns 9774 as change.\<close>

theorem change_is_not_dust_witness:
  "NewUnsignedTransaction example_policy example_outputs 1000 (one_coin 60000)
     (change_of example_script) () = Some (Inr example_change_tx, ()) \<and>
   0 \<le> ChangeIndex example_change_tx \<and>
   nat (ChangeIndex example_change_tx) < length (TxOut (Tx example_change_tx)) \<and>
   Value (TxOut (Tx example_change_tx) ! nat (ChangeIndex example_change_tx)) \<noteq> 0 \<and>
   \<not> IsDustAmount example_policy
        (Value (TxOut (Tx example_change_tx) ! nat (ChangeIndex example_change_tx)))
        (P2PKHPkScriptSize example_policy) 1000"
proof -
  have h1: "NewUnsignedTransaction example_policy example_outputs 1000 (one_coin 60000)
     (change_of example_script) () = Some (Inr example_change_tx, ())"
    by (rule run_with_change)
  have h2: "0 \<le> ChangeIndex example_change_tx"
    by (simp add: example_change_tx_def)
  show ?thesis
    using h1 h2 change_is_not_dust [OF h1 h2] by simp
qed

text \<open>
  Claim C3. Let the loop of a call come to an iteration in which the input
  source returns, without an error, a total strictly below the target amount
  plus the fee estimate of that iteration. Then the call returns the
  insufficient-funds error, \<^verbatim>\<open>insufficientFundsError{}\<close>, in the world the
  input source left. The same call with counting collaborators returns with
  the count of the change source at zero: the change source was never called.
\<close>

theorem insufficient_funds:
  fixes fi :: "('e, 'w) InputSource" and fc :: "('e, 'w) ChangeSource"
  assumes "retargets P outputs rate fi (SumOutputValues outputs)
             (requiredFee P outputs rate 0, w0) (targetFee, w)"
    and "fi w (SumOutputValues outputs + targetFee) = (Inr fetched, w')"
    and "src_total fetched <s SumOutputValues outputs + targetFee"
  shows "NewUnsignedTransaction P outputs rate fi fc w0 = Some (Inl InsufficientFundsError, w') \<and>
         (\<exists>k. NewUnsignedTransaction P outputs rate (counting_inputs fi) (counting_change fc)
                 (w0, 0, 0) = Some (Inl InsufficientFundsError, (w', k, 0)))"
proof
  have "negotiate P outputs rate fi fc (SumOutputValues outputs) targetFee w =
        Some (Inl InsufficientFundsError, w')"
    by (rule negotiate_shortfall) (fact assms(2), fact assms(3))
  then show "NewUnsignedTransaction P outputs rate fi fc w0 =
      Some (Inl InsufficientFundsError, w')"
    using negotiate_at_iteration [OF assms(1), of fc] by simp
next
  from retargets_counting [OF assms(1), of 0 0] obtain k where
    k: "retargets P outputs rate (counting_inputs fi) (SumOutputValues outputs)
          (requiredFee P outputs rate 0, (w0, 0, 0)) (targetFee, (w, k, 0))"
    by auto
  have c: "counting_inputs fi (w, k, 0) (SumOutputValues outputs + targetFee) =
        (Inr fetched, (w', Suc k, 0))"
    using assms(2) by (simp add: counting_inputs_def)
  have "negotiate P outputs rate (counting_inputs fi) (counting_change fc)
          (SumOutputValues outputs) targetFee (w, k, 0) =
        Some (Inl InsufficientFundsError, (w', Suc k, 0))"
    by (rule negotiate_shortfall) (fact c, fact assms(3))
  then have "NewUnsignedTransaction P outputs rate (counting_inputs fi) (counting_change fc)
        (w0, 0, 0) = Some (Inl InsufficientFundsError, (w', Suc k, 0))"
    using negotiate_at_iteration [OF k, of "counting_change fc"] by simp
  then show "\<exists>k. NewUnsignedTransaction P outputs rate (counting_inputs fi) (counting_change fc)
                 (w0, 0, 0) = Some (Inl InsufficientFundsError, (w', k, 0))"
    by blast
qed

text \<open>
  Claim C3 on a wallet with one coin of 50100. The first answer covers the
  target 50000 and the first estimate 78, but not the fee 226 for one input;
  the second iteration asks for 50226 and gets 50100 again.
\<close>

theorem insufficient_funds_witness:
  "retargets example_policy example_outputs 1000 (one_coin 50100)
     (SumOutputValues example_outputs)
     (requiredFee example_policy example_outputs 1000 0, ())
     (requiredFee example_policy example_outputs 1000 (Suc 0), ()) \<and>
   one_coin 50100 ()
     (SumOutputValues example_outputs + requiredFee example_policy example_outputs 1000 (Suc 0)) =
     (Inr \<lparr>src_total = 50100, src_inputs = [example_input], src_inputValues = [50100],
           src_scripts = [example_script]\<rparr>, ()) \<and>
   (50100 :: Amount) <s 50000 + 226 \<and>
   NewUnsignedTransaction example_policy example_outputs 1000 (one_coin 50100)
     (change_of example_script) () = Some (Inl InsufficientFundsError, ()) \<and>
   (\<exists>k. NewUnsignedTransaction example_policy example_outputs 1000
           (counting_inputs (one_coin 50100)) (counting_change (change_of example_script))
           ((), 0, 0) = Some (Inl InsufficientFundsError, ((), k, 0)))"
proof -
  let ?fetched = "\<lparr>src_total = 50100, src_inputs = [example_input], src_inputValues = [50100],
                   src_scripts = [example_script]\<rparr>"
  have h1: "retargets example_policy example_outputs 1000 (one_coin 50100)
     (SumOutputValues example_outputs)
     (requiredFee example_policy example_outputs 1000 0, ())
     (requiredFee example_policy example_outputs 1000 (Suc 0), ())"
    by (rule one_coin_retargets)
  have h2: "one_coin 50100 ()
     (SumOutputValues example_outputs + requiredFee example_policy example_outputs 1000 (Suc 0)) =
     (Inr ?fetched, ())"
    by (simp add: one_coin_def)
  have h3: "src_total ?fetched
     <s SumOutputValues example_outputs + requiredFee example_policy example_outputs 1000 (Suc 0)"
    by (simp add: example_target example_fee_1)
  show ?thesis
    using h1 h2 h3 insufficient_funds [OF h1 h2 h3, of "change_of example_script"]
    by (simp add: example_target example_fee_1)
qed

text \<open>
  Claim C6. Let the loop come to an iteration in which the inputs cover the
  target, the estimate and their own fee, and in which the change is neither
  zero nor dust, so that the change source is called. If the change source
  returns, without an error, a script longer than \<^verbatim>\<open>P2PKHPkScriptSize\<close>, the
  call returns the fee-estimation error (``fee estimation requires change
  scripts no larger than P2PKH output scripts'') and no transaction.
\<close>

theorem oversized_change_script_rejected:
  fixes fi :: "('e, 'w) InputSource" and fc :: "('e, 'w) ChangeSource"
  assumes "retargets P outputs rate fi (SumOutputValues outputs)
             (requiredFee P outputs rate 0, w0) (targetFee, w)"
    and "fi w (SumOutputValues outputs + targetFee) = (Inr fetched, w1)"
    and "\<not> src_total fetched <s SumOutputValues outputs + targetFee"
    and "\<not> src_total fetched - SumOutputValues outputs
             <s requiredFee P outputs rate (length (src_inputs fetched))"
    and "changeAmount = src_total fetched - SumOutputValues outputs
             - requiredFee P outputs rate (length (src_inputs fetched))"
    and "changeAmount \<noteq> 0"
    and "\<not> IsDustAmount P changeAmount (P2PKHPkScriptSize P) rate"
    and "fc w1 = (Inr changeScript, w2)"
    and "P2PKHPkScriptSize P < int (length changeScript)"
  shows "NewUnsignedTransaction P outputs rate fi fc w0 = Some (Inl ChangeScriptTooLarge, w2)"
proof -
  have "negotiate P outputs rate fi fc (SumOutputValues outputs) targetFee w =
        Some (assemble P outputs rate fc (SumOutputValues outputs) fetched
                 (requiredFee P outputs rate (length (src_inputs fetched))) w1)"
    by (rule negotiate_converged) (fact assms(2), fact assms(3), fact assms(4))
  moreover have "assemble P outputs rate fc (SumOutputValues outputs) fetched
                 (requiredFee P outputs rate (length (src_inputs fetched))) w1 =
        (Inl ChangeScriptTooLarge, w2)"
    by (rule assemble_oversized)
      (fact assms(5), fact assms(6), fact assms(7), fact assms(8), fact assms(9))
  ultimately show ?thesis
    using negotiate_at_iteration [OF assms(1), of fc] by simp
qed

text \<open>
  Claim C6 on a wallet with one coin of 60000 whose change source returns a
  script of 26 bytes: the change 9774 is wanted, the script is one byte too
  long, and the call fails.
\<close>

theorem oversized_change_script_rejected_witness:
  "retargets example_policy example_outputs 1000 (one_coin 60000)
     (SumOutputValues example_outputs)
     (requiredFee example_policy example_outputs 1000 0, ())
     (requiredFee example_policy example_outputs 1000 0, ()) \<and>
   one_coin 60000 ()
     (SumOutputValues example_outputs + requiredFee example_policy example_outputs 1000 0) =
     (Inr \<lparr>src_total = 60000, src_inputs = [example_input], src_inputValues = [60000],
           src_scripts = [example_script]\<rparr>, ()) \<and>
   \<not> (60000 :: Amount) <s 50000 + 78 \<and>
   \<not> (60000 :: Amount) - 50000 <s 226 \<and>
   (9774 :: Amount) = 60000 - 50000 - 226 \<and>
   (9774 :: Amount) \<noteq> 0 \<and>
   \<not> IsDustAmount example_policy 9774 (P2PKHPkScriptSize example_policy) 1000 \<and>
   change_of (replicate 26 0) () = (Inr (replicate 26 0), ()) \<and>
   P2PKHPkScriptSize example_policy < int (length (replicate 26 (0 :: 8 word))) \<and>
   NewUnsignedTransaction example_policy example_outputs 1000 (one_coin 60000)
     (change_of (replicate 26 0)) () = Some (Inl ChangeScriptTooLarge, ())"
proof -
  let ?fetched = "\<lparr>src_total = 60000, src_inputs = [example_input], src_inputValues = [60000],
                   src_scripts = [example_script]\<rparr>"
  let ?target = "SumOutputValues example_outputs"
  have h1: "retargets example_policy example_outputs 1000 (one_coin 60000) ?target
     (requiredFee example_policy example_outputs 1000 0, ())
     (requiredFee example_policy example_outputs 1000 0, ())"
    by (rule retargets.start)
  have h2: "one_coin 60000 () (?target + requiredFee example_policy example_outputs 1000 0) =
     (Inr ?fetched, ())"
    by (simp add: one_coin_def)
  have h3: "\<not> src_total ?fetched
     <s ?target + requiredFee example_policy example_outputs 1000 0"
    by (simp add: example_target example_fee_0)
  have h4: "\<not> src_total ?fetched - ?target
     <s requiredFee example_policy example_outputs 1000 (length (src_inputs ?fetched))"
    by (simp add: example_target example_fee_1)
  have h5: "(9774 :: Amount) = src_total ?fetched - ?target
     - requiredFee example_policy example_outputs 1000 (length (src_inputs ?fetched))"
    by (simp add: example_target example_fee_1)
  have h6: "(9774 :: Amount) \<noteq> 0"
    by simp
  have h7: "\<not> IsDustAmount example_policy 9774 (P2PKHPkScriptSize example_policy) 1000"
    by (simp add: example_policy_def)
  have h8: "change_of (replicate 26 0) () = (Inr (replicate 26 0), ())"
    by (simp add: change_of_def)
  have h9: "P2PKHPkScriptSize example_policy < int (length (replicate 26 (0 :: 8 word)))"
    by (simp add: example_policy_def)
  show ?thesis
    using h1 h2 h7 h8 h9
      oversized_change_script_rejected [where fi = "one_coin 60000"
        and fc = "change_of (replicate 26 0)" and w = "()" and ?w1.0 = "()",
        OF h1 h2 h3 h4 h5 h6 h7 h8 h9]
    by simp
qed

text \<open>
  An input source that is exact and returns \<open>n\<close> inputs ends the loop in the
  iteration that asks with the fee for \<open>n\<close> inputs.
\<close>

lemma negotiate_exact_last:
  fixes fi :: "('e, 'w) InputSource" and fc :: "('e, 'w) ChangeSource"
  assumes exact: "\<forall>w target fetched w'. fi w target = (Inr fetched, w') \<longrightarrow>
             src_total fetched = target \<and> length (src_inputs fetched) = n"
  shows "\<exists>res w' c. negotiate P outputs rate (counting_inputs fi) (counting_change fc) target
            (requiredFee P outputs rate n) (w, k, 0) = Some (res, (w', Suc k, c))"
proof (cases "fi w (target + requiredFee P outputs rate n)")
  case (Pair r w')
  show ?thesis
  proof (cases r)
    case (Inl err)
    with Pair show ?thesis
      by (subst negotiate_unfold) (simp add: counting_inputs_def)
  next
    case (Inr fetched)
    with Pair exact have e: "src_total fetched = target + requiredFee P outputs rate n"
      and l: "length (src_inputs fetched) = n"
      by blast+
    have c: "counting_inputs fi (w, k, 0) (target + requiredFee P outputs rate n) =
          (Inr fetched, (w', Suc k, 0))"
      using Pair Inr by (simp add: counting_inputs_def)
    have "negotiate P outputs rate (counting_inputs fi) (counting_change fc) target
            (requiredFee P outputs rate n) (w, k, 0) =
          Some (assemble P outputs rate (counting_change fc) target fetched
                 (requiredFee P outputs rate (length (src_inputs fetched))) (w', Suc k, 0))"
      by (rule negotiate_converged) (simp_all add: c e l)
    then have "negotiate P outputs rate (counting_inputs fi) (counting_change fc) target
            (requiredFee P outputs rate n) (w, k, 0) =
          Some (assemble P outputs rate (counting_change fc) target fetched
                 (requiredFee P outputs rate n) (w', Suc k, 0))"
      by (simp add: l)
    with assemble_counting
      [of P outputs rate fc target fetched "requiredFee P outputs rate n" w' "Suc k"]
    show ?thesis by auto
  qed
qed

text \<open>
  Claim C7, as amended. Let the input source, whenever it returns without an
  error, return exactly the requested target and always the same number \<open>n\<close>
  of inputs. Then \<^verbatim>\<open>NewUnsignedTransaction\<close> returns (a transaction or an
  error) and has called the input source at most twice.
\<close>

theorem exact_source_two_iterations:
  fixes fi :: "('e, 'w) InputSource" and fc :: "('e, 'w) ChangeSource"
  assumes exact: "\<forall>w target fetched w'. fi w target = (Inr fetched, w') \<longrightarrow>
             src_total fetched = target \<and> length (src_inputs fetched) = n"
  shows "\<exists>res w' k c. NewUnsignedTransaction P outputs rate (counting_inputs fi)
            (counting_change fc) (w0, 0, 0) = Some (res, (w', k, c)) \<and> k \<le> 2"
proof -
  let ?target = "SumOutputValues outputs"
  let ?fee0 = "requiredFee P outputs rate 0"
  let ?run = "negotiate P outputs rate (counting_inputs fi) (counting_change fc) ?target
                ?fee0 (w0, 0, 0)"
  have "\<exists>res w' k c. ?run = Some (res, (w', k, c)) \<and> k \<le> 2"
  proof (cases "fi w0 (?target + ?fee0)")
    case (Pair r w1)
    show ?thesis
    proof (cases r)
      case (Inl err)
      with Pair have "?run = Some (Inl (Collaborator err), (w1, 1, 0))"
        by (subst negotiate_unfold) (simp add: counting_inputs_def)
      then show ?thesis by simp
    next
      case (Inr fetched)
      with Pair exact have e: "src_total fetched = ?target + ?fee0"
        and l: "length (src_inputs fetched) = n"
        by blast+
      have c: "counting_inputs fi (w0, 0, 0) (?target + ?fee0) = (Inr fetched, (w1, 1, 0))"
        using Pair Inr by (simp add: counting_inputs_def)
      show ?thesis
      proof (cases "?fee0 <s requiredFee P outputs rate n")
        case True
        have "?run = negotiate P outputs rate (counting_inputs fi) (counting_change fc) ?target
                (requiredFee P outputs rate (length (src_inputs fetched))) (w1, 1, 0)"
          by (rule negotiate_continue) (simp_all add: c e l True)
        then have "?run = negotiate P outputs rate (counting_inputs fi) (counting_change fc)
                ?target (requiredFee P outputs rate n) (w1, 1, 0)"
          by (simp add: l)
        with negotiate_exact_last [where fi = fi and n = n and P = P and outputs = outputs
            and rate = rate and fc = fc and target = ?target and w = w1 and k = 1, OF exact]
        show ?thesis by auto
      next
        case False
        have "?run = Some (assemble P outputs rate (counting_change fc) ?target fetched
                 (requiredFee P outputs rate (length (src_inputs fetched))) (w1, 1, 0))"
          by (rule negotiate_converged) (simp_all add: c e l False)
        then have "?run = Some (assemble P outputs rate (counting_change fc) ?target fetched
                 (requiredFee P outputs rate n) (w1, 1, 0))"
          by (simp add: l)
        with assemble_counting
          [of P outputs rate fc ?target fetched "requiredFee P outputs rate n" w1 1]
        show ?thesis by auto
      qed
    qed
  qed
  then show ?thesis by (simp add: NewUnsignedTransaction_negotiate)
qed

text \<open>
  The amended claim C7 on the input source that answers every request
  exactly and from one input.
\<close>

theorem exact_source_two_iterations_witness:
  "\<exists>res w' k c. NewUnsignedTransaction example_policy example_outputs 1000
      (counting_inputs exact_one_input) (counting_change (change_of example_script))
      ((), 0, 0) = Some (res, (w', k, c)) \<and> k \<le> 2"
proof -
  have h: "\<forall>w target fetched w'. exact_one_input w target = (Inr fetched, w') \<longrightarrow>
      src_total fetched = target \<and> length (src_inputs fetched) = 1"
    by (auto simp: exact_one_input_def)
  show ?thesis
    by (rule exact_source_two_iterations [OF h])
qed

text \<open>
  Claim C7 as stated fails. The input source \<open>exact_source\<close> returns exactly
  what is asked on every call, from one input up to 50200 and from two inputs
  above. The builder asks for 50078, for 50226 and for 50374: each answer is
  exact, the first two do not pay the fee for their own number of inputs, and
  the input source is called three times.
\<close>

lemma exact_source_exact:
  "exact_source w target = (Inr fetched, w') \<Longrightarrow> src_total fetched = target"
  by (auto simp: exact_source_def split: if_splits)

theorem exact_source_counterexample:
  "NewUnsignedTransaction example_policy example_outputs 1000 (counting_inputs exact_source)
     (counting_change (change_of example_script)) ((), 0, 0) =
     Some (Inr example_exact_tx, ((), 3, 0)) \<and>
   fst (exact_source () 50078) =
     Inr \<lparr>src_total = 50078, src_inputs = [example_input], src_inputValues = [50078],
          src_scripts = [example_script]\<rparr> \<and>
   fst (exact_source () 50226) =
     Inr \<lparr>src_total = 50226, src_inputs = [example_input, other_input],
          src_inputValues = [50200, 26], src_scripts = [example_script, example_script]\<rparr> \<and>
   fst (exact_source () 50374) =
     Inr \<lparr>src_total = 50374, src_inputs = [example_input, other_input],
          src_inputValues = [50200, 174], src_scripts = [example_script, example_script]\<rparr>"
  by (simp add: NewUnsignedTransaction_def negotiate.simps assemble_def exact_source_def
      example_policy_def example_outputs_def example_script_def SumOutputValues_def
      counting_inputs_def example_exact_tx_def)

section \<open>The signing pass\<close>

subsection \<open>The loop and its body\<close>

lemma sign_inputs_append:
  "sign_inputs S prev vals (xs @ ys) tx h =
     (case sign_inputs S prev vals xs tx h of
        (Returns None, h1) \<Rightarrow> sign_inputs S prev vals ys tx h1
      | (Returns (Some err), h1) \<Rightarrow> (Returns (Some err), h1)
      | (Panics p, h1) \<Rightarrow> (Panics p, h1))"
  by (induction xs arbitrary: h)
    (auto split: prod.splits outcome.splits option.splits)

lemma upt_split_at:
  assumes "i < n"
  shows "[0..<n] = [0..<i] @ i # [Suc i..<n]"
proof -
  have "[0..<n] = [0..<i] @ [i..<n]"
    using assms upt_add_eq_append [of 0 i "n - i"] by simp
  then show ?thesis
    using assms by (simp add: upt_conv_Cons)
qed

lemma sign_inputs_at:
  assumes "i < n" and "sign_inputs S prev vals [0..<i] tx h = (Returns None, h1)"
  shows "sign_inputs S prev vals [0..<n] tx h =
          (case sign_input S prev vals i tx h1 of
             (Returns None, h') \<Rightarrow> sign_inputs S prev vals [Suc i..<n] tx h'
           | (Returns (Some err), h') \<Rightarrow> (Returns (Some err), h')
           | (Panics p, h') \<Rightarrow> (Panics p, h'))"
  using assms(2) by (simp add: upt_split_at [OF assms(1)] sign_inputs_append)

text \<open>
  What the body changes: at most the signature script of the object that the
  position \<open>i\<close> points to.
\<close>

lemma sign_input_frame:
  assumes "sign_input S prev vals i tx h = (res, h')"
  shows "(\<forall>p. p \<noteq> TxIn tx ! i \<longrightarrow> h' p = h p) \<and>
         (\<forall>p. PreviousOutPoint (h' p) = PreviousOutPoint (h p)) \<and>
         (res \<noteq> Returns None \<longrightarrow> h' = h)"
  using assms unfolding sign_input_def Let_def
  by (auto split: if_splits sum.splits list.splits prod.splits)

lemma sign_inputs_frame:
  assumes "sign_inputs S prev vals idxs tx h = (res, h')"
  shows "(\<forall>p. p \<notin> (\<lambda>k. TxIn tx ! k) ` set idxs \<longrightarrow> h' p = h p) \<and>
         (\<forall>p. PreviousOutPoint (h' p) = PreviousOutPoint (h p))"
  using assms
proof (induction idxs arbitrary: h)
  case Nil
  then show ?case by simp
next
  case (Cons i rest)
  obtain r1 h1 where s1: "sign_input S prev vals i tx h = (r1, h1)"
    by (cases "sign_input S prev vals i tx h")
  note f1 = sign_input_frame [OF s1]
  show ?case
  proof (cases "r1 = Returns None")
    case True
    with Cons.prems s1 have "sign_inputs S prev vals rest tx h1 = (res, h')"
      by simp
    from Cons.IH [OF this] f1 show ?thesis
      by auto
  next
    case False
    with Cons.prems s1 have "h' = h1"
      by (auto split: outcome.splits option.splits)
    with f1 False show ?thesis by auto
  qed
qed

text \<open>The body comes to its end exactly when the input is signed.\<close>

lemma sign_input_signed:
  assumes "sign_input S prev vals i tx h = (Returns None, h')"
  shows "\<exists>addr rest privKey compressed sigScript.
           ExtractPkScriptAddrs S (prev ! i) = Inr (addr # rest) \<and>
           GetKey S addr = Inr (privKey, compressed) \<and>
           i < length prev \<and> i < length vals \<and> i < length (TxIn tx) \<and>
           txscript_SignatureScript S tx h (int i) (ToSatoshi S (vals ! i)) (prev ! i)
             privKey compressed = Inr sigScript \<and>
           h' = h(TxIn tx ! i := (h (TxIn tx ! i))\<lparr>SignatureScript := sigScript\<rparr>)"
  using assms unfolding sign_input_def Let_def
  by (auto split: if_splits sum.splits list.splits prod.splits)

text \<open>
  The three failures of a collaborator, each of which makes the body return
  the collaborator's error and leave the store as it is.
\<close>

lemma sign_input_identity_fails:
  assumes "i < length prev" and "ExtractPkScriptAddrs S (prev ! i) = Inl e"
  shows "sign_input S prev vals i tx h = (Returns (Some (Collaborator e)), h)"
  using assms by (simp add: sign_input_def)

lemma sign_input_key_fails:
  assumes "i < length prev" and "ExtractPkScriptAddrs S (prev ! i) = Inr (addr # rest)"
    and "GetKey S addr = Inl e"
  shows "sign_input S prev vals i tx h = (Returns (Some (Collaborator e)), h)"
  using assms by (simp add: sign_input_def)

lemma sign_input_signature_fails:
  assumes "i < length prev" and "ExtractPkScriptAddrs S (prev ! i) = Inr (addr # rest)"
    and "GetKey S addr = Inr (privKey, compressed)" and "i < length vals"
    and "txscript_SignatureScript S tx h (int i) (ToSatoshi S (vals ! i)) (prev ! i)
           privKey compressed = Inl e"
  shows "sign_input S prev vals i tx h = (Returns (Some (Collaborator e)), h)"
  using assms by (simp add: sign_input_def)

text \<open>Conversely, an error of the body is one of these three failures.\<close>

lemma sign_input_error:
  assumes "sign_input S prev vals i tx h = (Returns (Some err), h')"
  shows "h' = h \<and> i < length prev \<and>
         (\<exists>e. err = Collaborator e \<and>
           (ExtractPkScriptAddrs S (prev ! i) = Inl e \<or>
            (\<exists>addr rest. ExtractPkScriptAddrs S (prev ! i) = Inr (addr # rest) \<and>
               (GetKey S addr = Inl e \<or>
                (\<exists>privKey compressed. GetKey S addr = Inr (privKey, compressed) \<and>
                   i < length vals \<and>
                   txscript_SignatureScript S tx h (int i) (ToSatoshi S (vals ! i)) (prev ! i)
                     privKey compressed = Inl e)))))"
  using assms unfolding sign_input_def Let_def
  by (auto split: if_splits sum.splits list.splits prod.splits)

lemma sign_input_no_identity:
  assumes "i < length prev" and "ExtractPkScriptAddrs S (prev ! i) = Inr []"
  shows "sign_input S prev vals i tx h = (Panics IndexOutOfRange, h)"
  using assms by (simp add: sign_input_def)

text \<open>
  Where no input object stands at two positions, an input that was signed
  keeps the script written for it while the later positions are signed.
\<close>

lemma prefix_signed:
  assumes "sign_inputs S prev vals [0..<i] tx h = (Returns None, h1)"
    and "j < i" and "i \<le> length (TxIn tx)" and "distinct (TxIn tx)"
  shows "\<exists>hj addr rest privKey compressed sigScript.
           sign_inputs S prev vals [0..<j] tx h = (Returns None, hj) \<and>
           ExtractPkScriptAddrs S (prev ! j) = Inr (addr # rest) \<and>
           GetKey S addr = Inr (privKey, compressed) \<and>
           txscript_SignatureScript S tx hj (int j) (ToSatoshi S (vals ! j)) (prev ! j)
             privKey compressed = Inr sigScript \<and>
           h1 (TxIn tx ! j) = (h (TxIn tx ! j))\<lparr>SignatureScript := sigScript\<rparr>"
proof -
  obtain rj hj where pj: "sign_inputs S prev vals [0..<j] tx h = (rj, hj)"
    by (cases "sign_inputs S prev vals [0..<j] tx h")
  have split: "[0..<i] = [0..<j] @ j # [Suc j..<i]"
    by (rule upt_split_at) (fact assms(2))
  from assms(1) pj have rj: "rj = Returns None"
    by (auto simp: split sign_inputs_append split: outcome.splits option.splits)
  obtain r' h' where sj: "sign_input S prev vals j tx hj = (r', h')"
    by (cases "sign_input S prev vals j tx hj")
  from assms(1) pj rj sj have r': "r' = Returns None"
    and rest: "sign_inputs S prev vals [Suc j..<i] tx h' = (Returns None, h1)"
    by (auto simp: split sign_inputs_append split: outcome.splits option.splits)
  from sign_input_signed [OF sj [unfolded r']] obtain addr rest' privKey compressed sigScript
    where ex: "ExtractPkScriptAddrs S (prev ! j) = Inr (addr # rest')"
      and key: "GetKey S addr = Inr (privKey, compressed)"
      and sig: "txscript_SignatureScript S tx hj (int j) (ToSatoshi S (vals ! j)) (prev ! j)
             privKey compressed = Inr sigScript"
      and h': "h' = hj(TxIn tx ! j := (hj (TxIn tx ! j))\<lparr>SignatureScript := sigScript\<rparr>)"
    by blast
  have other: "TxIn tx ! k \<noteq> TxIn tx ! j" if "k < i" "k \<noteq> j" for k
    using that assms(2,3,4) by (simp add: nth_eq_iff_index_eq)
  have "TxIn tx ! j \<notin> (\<lambda>k. TxIn tx ! k) ` set [0..<j]"
  proof
    assume "TxIn tx ! j \<in> (\<lambda>k. TxIn tx ! k) ` set [0..<j]"
    then obtain k where "k \<in> set [0..<j]" and "TxIn tx ! j = TxIn tx ! k"
      by blast
    with other [of k] assms(2) show False
      by auto
  qed
  with sign_inputs_frame [OF pj] have same: "hj (TxIn tx ! j) = h (TxIn tx ! j)"
    by blast
  have "TxIn tx ! j \<notin> (\<lambda>k. TxIn tx ! k) ` set [Suc j..<i]"
  proof
    assume "TxIn tx ! j \<in> (\<lambda>k. TxIn tx ! k) ` set [Suc j..<i]"
    then obtain k where "k \<in> set [Suc j..<i]" and "TxIn tx ! j = TxIn tx ! k"
      by blast
    with other [of k] show False
      by auto
  qed
  with sign_inputs_frame [OF rest] have "h1 (TxIn tx ! j) = h' (TxIn tx ! j)"
    by blast
  also have "\<dots> = (h (TxIn tx ! j))\<lparr>SignatureScript := sigScript\<rparr>"
    using h' same by simp
  finally show ?thesis
    using pj rj ex key sig by blast
qed

lemma sign_input_first_identity:
  "sign_input (first_identity_only S) prev vals i tx h = sign_input S prev vals i tx h"
  unfolding sign_input_def first_identity_only_def Let_def
  by (auto split: sum.splits list.splits prod.splits)

lemma sign_inputs_first_identity:
  "sign_inputs (first_identity_only S) prev vals idxs tx h = sign_inputs S prev vals idxs tx h"
  by (induction idxs arbitrary: h)
    (auto simp: sign_input_first_identity split: prod.splits outcome.splits option.splits)

subsection \<open>Claims about AddAllInputScripts\<close>

text \<open>
  Claim C4, as amended. Let \<^verbatim>\<open>prevPkScripts\<close> have the length of the inputs,
  let the inputs before the position \<open>i\<close> be signed, and let a collaborator
  fail at the input \<open>i\<close>: the extraction of the identity returns an error, or
  the key lookup for the first identity returns an error, or (where
  \<^verbatim>\<open>inputValues[i]\<close> exists) the signing returns an error. Then
  \<^verbatim>\<open>AddAllInputScripts\<close> returns that error at once, and no input object is
  written but those at the positions before \<open>i\<close>. Where no input object stands
  at two positions of the transaction, no input at the position \<open>i\<close> or behind
  it is changed, and every input before \<open>i\<close> keeps the signature script that
  was written into it: the call leaves the transaction partly signed and does
  not restore the earlier inputs.
\<close>

theorem signing_stops_at_first_failure:
  assumes "length prev = length (TxIn tx)" and "i < length (TxIn tx)"
    and "sign_inputs S prev vals [0..<i] tx h = (Returns None, h1)"
    and "ExtractPkScriptAddrs S (prev ! i) = Inl e \<or>
         (\<exists>addr rest. ExtractPkScriptAddrs S (prev ! i) = Inr (addr # rest) \<and>
            (GetKey S addr = Inl e \<or>
             (\<exists>privKey compressed. GetKey S addr = Inr (privKey, compressed) \<and>
                i < length vals \<and>
                txscript_SignatureScript S tx h1 (int i) (ToSatoshi S (vals ! i)) (prev ! i)
                  privKey compressed = Inl e)))"
  shows "AddAllInputScripts S tx prev vals h = (Returns (Some (Collaborator e)), h1) \<and>
         (\<forall>p. p \<notin> set (take i (TxIn tx)) \<longrightarrow> h1 p = h p) \<and>
         (distinct (TxIn tx) \<longrightarrow>
            (\<forall>j. i \<le> j \<and> j < length (TxIn tx) \<longrightarrow> h1 (TxIn tx ! j) = h (TxIn tx ! j)) \<and>
            (\<forall>j<i. \<exists>hj addr rest privKey compressed sigScript.
               sign_inputs S prev vals [0..<j] tx h = (Returns None, hj) \<and>
               ExtractPkScriptAddrs S (prev ! j) = Inr (addr # rest) \<and>
               GetKey S addr = Inr (privKey, compressed) \<and>
               txscript_SignatureScript S tx hj (int j) (ToSatoshi S (vals ! j)) (prev ! j)
                 privKey compressed = Inr sigScript \<and>
               h1 (TxIn tx ! j) = (h (TxIn tx ! j))\<lparr>SignatureScript := sigScript\<rparr>))"
proof (intro conjI allI impI)
  have ip: "i < length prev"
    using assms(1,2) by simp
  have "sign_input S prev vals i tx h1 = (Returns (Some (Collaborator e)), h1)"
    using assms(4)
  proof (elim disjE exE conjE)
    assume "ExtractPkScriptAddrs S (prev ! i) = Inl e"
    with ip show ?thesis by (rule sign_input_identity_fails)
  next
    fix addr rest
    assume "ExtractPkScriptAddrs S (prev ! i) = Inr (addr # rest)" and "GetKey S addr = Inl e"
    with ip show ?thesis by (rule sign_input_key_fails)
  next
    fix addr rest privKey compressed
    assume "ExtractPkScriptAddrs S (prev ! i) = Inr (addr # rest)"
      and "GetKey S addr = Inr (privKey, compressed)" and "i < length vals"
      and "txscript_SignatureScript S tx h1 (int i) (ToSatoshi S (vals ! i)) (prev ! i)
             privKey compressed = Inl e"
    with ip show ?thesis by (rule sign_input_signature_fails)
  qed
  with sign_inputs_at [OF assms(2,3)] assms(1)
  show "AddAllInputScripts S tx prev vals h = (Returns (Some (Collaborator e)), h1)"
    by (simp add: AddAllInputScripts_def)
next
  fix p assume "p \<notin> set (take i (TxIn tx))"
  moreover have "(\<lambda>k. TxIn tx ! k) ` set [0..<i] = set (take i (TxIn tx))"
    using assms(2) nth_image [of i "TxIn tx"] by simp
  ultimately show "h1 p = h p"
    using sign_inputs_frame [OF assms(3)] by simp
next
  fix j assume d: "distinct (TxIn tx)" and "i \<le> j \<and> j < length (TxIn tx)"
  then have "TxIn tx ! j \<notin> (\<lambda>k. TxIn tx ! k) ` set [0..<i]"
    using assms(2) by (auto simp: nth_eq_iff_index_eq)
  with sign_inputs_frame [OF assms(3)] show "h1 (TxIn tx ! j) = h (TxIn tx ! j)"
    by blast
next
  fix j assume d: "distinct (TxIn tx)" and "j < i"
  from assms(2) have "i \<le> length (TxIn tx)" by simp
  from prefix_signed [OF assms(3) \<open>j < i\<close> this d]
  show "\<exists>hj addr rest privKey compressed sigScript.
            sign_inputs S prev vals [0..<j] tx h = (Returns None, hj) \<and>
            ExtractPkScriptAddrs S (prev ! j) = Inr (addr # rest) \<and>
            GetKey S addr = Inr (privKey, compressed) \<and>
            txscript_SignatureScript S tx hj (int j) (ToSatoshi S (vals ! j)) (prev ! j)
              privKey compressed = Inr sigScript \<and>
            h1 (TxIn tx ! j) = (h (TxIn tx ! j))\<lparr>SignatureScript := sigScript\<rparr>" .
qed

text \<open>
  Two inputs, the objects 0 and 1; the first previous script is \<open>[2]\<close>, which
  the example signer resolves and signs for.
\<close>

lemma example_tx_inputs:
  "TxIn (example_tx 2) = [0, 1]" "TxIn (example_tx 1) = [0]" "TxIn (example_tx (Suc 0)) = [0]"
  by (simp_all add: example_tx_def numeral_2_eq_2)

lemma example_first_signed:
  "sign_inputs example_signer [[2], s] [5, 6] [0..<1] (example_tx 2) example_store =
     (Returns None, example_partly_signed)"
  by (simp add: sign_input_def example_signer_def example_tx_inputs example_partly_signed_def)

lemma example_no_identity:
  "AddAllInputScripts example_signer (example_tx 2) [[2], [0]] [5, 6] example_store =
     (Returns (Some (Collaborator ''no identity'')), example_partly_signed)"
  by (simp add: AddAllInputScripts_def sign_input_def example_signer_def example_tx_inputs
      example_partly_signed_def)

lemma example_no_key:
  "AddAllInputScripts example_signer (example_tx 2) [[2], [1]] [5, 6] example_store =
     (Returns (Some (Collaborator ''no key'')), example_partly_signed)"
  by (simp add: AddAllInputScripts_def sign_input_def example_signer_def example_tx_inputs
      example_partly_signed_def)

lemma example_no_signature:
  "AddAllInputScripts example_signer (example_tx 2) [[2], [3]] [5, 6] example_store =
     (Returns (Some (Collaborator ''no signature'')), example_partly_signed)"
  by (simp add: AddAllInputScripts_def sign_input_def example_signer_def example_tx_inputs
      example_partly_signed_def)

text \<open>
  The amended claim C4 on these two inputs, once for each failure at the
  second input: no identity, no key, no signature.
\<close>

theorem signing_stops_at_first_failure_witness:
  "distinct (TxIn (example_tx 2)) \<and>
   sign_inputs example_signer [[2], [0]] [5, 6] [0..<1] (example_tx 2) example_store =
     (Returns None, example_partly_signed) \<and>
   ExtractPkScriptAddrs example_signer ([[2], [0]] ! 1) = Inl ''no identity'' \<and>
   AddAllInputScripts example_signer (example_tx 2) [[2], [0]] [5, 6] example_store =
     (Returns (Some (Collaborator ''no identity'')), example_partly_signed) \<and>
   ExtractPkScriptAddrs example_signer ([[2], [1]] ! 1) = Inr [[1]] \<and>
   GetKey example_signer [1] = Inl ''no key'' \<and>
   AddAllInputScripts example_signer (example_tx 2) [[2], [1]] [5, 6] example_store =
     (Returns (Some (Collaborator ''no key'')), example_partly_signed) \<and>
   ExtractPkScriptAddrs example_signer ([[2], [3]] ! 1) = Inr [[3]] \<and>
   GetKey example_signer [3] = Inr ([3], True) \<and>
   txscript_SignatureScript example_signer (example_tx 2) example_partly_signed (int 1)
     (ToSatoshi example_signer ([5, 6] ! 1)) ([[2], [3]] ! 1) [3] True = Inl ''no signature'' \<and>
   AddAllInputScripts example_signer (example_tx 2) [[2], [3]] [5, 6] example_store =
     (Returns (Some (Collaborator ''no signature'')), example_partly_signed) \<and>
   example_partly_signed (TxIn (example_tx 2) ! 1) = example_store (TxIn (example_tx 2) ! 1) \<and>
   (\<exists>hj addr rest privKey compressed sigScript.
      sign_inputs example_signer [[2], [1]] [5, 6] [0..<0] (example_tx 2) example_store =
        (Returns None, hj) \<and>
      ExtractPkScriptAddrs example_signer ([[2], [1]] ! 0) = Inr (addr # rest) \<and>
      GetKey example_signer addr = Inr (privKey, compressed) \<and>
      txscript_SignatureScript example_signer (example_tx 2) hj (int 0)
        (ToSatoshi example_signer ([5, 6] ! 0)) ([[2], [1]] ! 0) privKey compressed =
        Inr sigScript \<and>
      example_partly_signed (TxIn (example_tx 2) ! 0) =
        (example_store (TxIn (example_tx 2) ! 0))\<lparr>SignatureScript := sigScript\<rparr>)"
proof -
  have d: "distinct (TxIn (example_tx 2))"
    by (simp add: example_tx_inputs)
  have h1: "length [[2], s] = length (TxIn (example_tx 2))" for s :: script
    by (simp add: example_tx_inputs)
  have h2: "1 < length (TxIn (example_tx 2))"
    by (simp add: example_tx_inputs)
  note h3 = example_first_signed
  have e1: "ExtractPkScriptAddrs example_signer ([[2], [0]] ! 1) = Inl ''no identity''"
    by (simp add: example_signer_def)
  have e2: "ExtractPkScriptAddrs example_signer ([[2], [1]] ! 1) = Inr [[1]]"
    by (simp add: example_signer_def)
  have k2: "GetKey example_signer [1] = Inl ''no key''"
    by (simp add: example_signer_def)
  have e3: "ExtractPkScriptAddrs example_signer ([[2], [3]] ! 1) = Inr [[3]]"
    by (simp add: example_signer_def)
  have k3: "GetKey example_signer [3] = Inr ([3], True)"
    by (simp add: example_signer_def)
  have s3: "txscript_SignatureScript example_signer (example_tx 2) example_partly_signed (int 1)
     (ToSatoshi example_signer ([5, 6] ! 1)) ([[2], [3]] ! 1) [3] True = Inl ''no signature''"
    by (simp add: example_signer_def)
  have f1: "ExtractPkScriptAddrs example_signer ([[2], [0]] ! 1) = Inl ''no identity'' \<or>
         (\<exists>addr rest. ExtractPkScriptAddrs example_signer ([[2], [0]] ! 1) = Inr (addr # rest) \<and>
            (GetKey example_signer addr = Inl ''no identity'' \<or>
             (\<exists>privKey compressed. GetKey example_signer addr = Inr (privKey, compressed) \<and>
                1 < length [5, 6 :: Amount] \<and>
                txscript_SignatureScript example_signer (example_tx 2) example_partly_signed
                  (int 1) (ToSatoshi example_signer ([5, 6] ! 1)) ([[2], [0]] ! 1)
                  privKey compressed = Inl ''no identity'')))"
    using e1 by (rule disjI1)
  have f2: "ExtractPkScriptAddrs example_signer ([[2], [1]] ! 1) = Inl ''no key'' \<or>
         (\<exists>addr rest. ExtractPkScriptAddrs example_signer ([[2], [1]] ! 1) = Inr (addr # rest) \<and>
            (GetKey example_signer addr = Inl ''no key'' \<or>
             (\<exists>privKey compressed. GetKey example_signer addr = Inr (privKey, compressed) \<and>
                1 < length [5, 6 :: Amount] \<and>
                txscript_SignatureScript example_signer (example_tx 2) example_partly_signed
                  (int 1) (ToSatoshi example_signer ([5, 6] ! 1)) ([[2], [1]] ! 1)
                  privKey compressed = Inl ''no key'')))"
    using e2 k2 by blast
  have f3: "ExtractPkScriptAddrs example_signer ([[2], [3]] ! 1) = Inl ''no signature'' \<or>
         (\<exists>addr rest. ExtractPkScriptAddrs example_signer ([[2], [3]] ! 1) = Inr (addr # rest) \<and>
            (GetKey example_signer addr = Inl ''no signature'' \<or>
             (\<exists>privKey compressed. GetKey example_signer addr = Inr (privKey, compressed) \<and>
                1 < length [5, 6 :: Amount] \<and>
                txscript_SignatureScript example_signer (example_tx 2) example_partly_signed
                  (int 1) (ToSatoshi example_signer ([5, 6] ! 1)) ([[2], [3]] ! 1)
                  privKey compressed = Inl ''no signature'')))"
    using e3 k3 s3 by auto
  note t1 = signing_stops_at_first_failure [OF h1 h2 h3 f1]
  note t2 = signing_stops_at_first_failure [OF h1 h2 h3 f2]
  note t3 = signing_stops_at_first_failure [OF h1 h2 h3 f3]
  note r1 = t1 [THEN conjunct1]
  note r2 = t2 [THEN conjunct1]
  note r3 = t3 [THEN conjunct1]
  note u = t2 [THEN conjunct2, THEN conjunct2, THEN mp, OF d]
  note c2 = u [THEN conjunct1, rule_format, of 1]
  note c3 = u [THEN conjunct2, rule_format, of 0]
  have later: "example_partly_signed (TxIn (example_tx 2) ! 1) =
      example_store (TxIn (example_tx 2) ! 1)"
    using c2 h2 by simp
  have earlier: "\<exists>hj addr rest privKey compressed sigScript.
      sign_inputs example_signer [[2], [1]] [5, 6] [0..<0] (example_tx 2) example_store =
        (Returns None, hj) \<and>
      ExtractPkScriptAddrs example_signer ([[2], [1]] ! 0) = Inr (addr # rest) \<and>
      GetKey example_signer addr = Inr (privKey, compressed) \<and>
      txscript_SignatureScript example_signer (example_tx 2) hj (int 0)
        (ToSatoshi example_signer ([5, 6] ! 0)) ([[2], [1]] ! 0) privKey compressed =
        Inr sigScript \<and>
      example_partly_signed (TxIn (example_tx 2) ! 0) =
        (example_store (TxIn (example_tx 2) ! 0))\<lparr>SignatureScript := sigScript\<rparr>"
    by (rule c3) simp
  from d h3 [of "[0]"] e1 r1 e2 k2 r2 e3 k3 s3 r3 later earlier show ?thesis
    by (intro conjI)
qed

text \<open>
  Claim C4 as stated fails. The key of the second input cannot be resolved,
  the call returns that error, and the first input has its new signature
  script all the same.
\<close>

theorem partial_signing_counterexample:
  "GetKey example_signer [1] = Inl ''no key'' \<and>
   AddAllInputScripts example_signer (example_tx 2) [[2], [1]] [5, 6] example_store =
     (Returns (Some (Collaborator ''no key'')), example_partly_signed) \<and>
   SignatureScript (example_store (TxIn (example_tx 2) ! 0)) = [] \<and>
   SignatureScript (example_partly_signed (TxIn (example_tx 2) ! 0)) = [255, 2]"
  using example_no_key
  by (simp add: example_signer_def example_tx_inputs example_partly_signed_def
      example_store_def)

text \<open>
  Where one input object stands at both positions, signing the second position
  overwrites the script of the first: the write goes through the pointer.
\<close>

lemma shared_input_object:
  "AddAllInputScripts example_signer example_shared_tx [[2], [4]] [5, 6] example_store =
     (Returns None, example_store(0 := (example_store 0)\<lparr>SignatureScript := [255, 4]\<rparr>))"
  by (simp add: AddAllInputScripts_def sign_input_def example_signer_def example_shared_tx_def
      example_input_def)

text \<open>
  Claim C5 fails on the code. Only the length of \<^verbatim>\<open>prevPkScripts\<close> is compared
  with the number of inputs (lines 180 to 183); the length of \<^verbatim>\<open>inputValues\<close>
  is never checked. With one input, one previous script and no input value,
  the call passes the check, resolves the key and panics at
  \<^verbatim>\<open>inputValues[0]\<close>; with two input values for one input it signs and
  returns \<^verbatim>\<open>nil\<close>. Neither call returns the error of mismatched lengths.
\<close>

theorem input_values_length_unchecked:
  "AddAllInputScripts example_signer (example_tx 1) [[2]] [] example_store =
     (Panics IndexOutOfRange, example_store) \<and>
   AddAllInputScripts example_signer (example_tx 1) [[2]] [5, 6] example_store =
     (Returns None, example_store(0 := (example_store 0)\<lparr>SignatureScript := [255, 2]\<rparr>))"
  by (simp add: AddAllInputScripts_def sign_input_def example_signer_def example_tx_inputs)

text \<open>The part of claim C5 that the code checks: the previous scripts.\<close>

lemma prev_scripts_length_checked:
  "length (TxIn tx) \<noteq> length prev \<Longrightarrow>
   AddAllInputScripts S tx prev vals h = (Returns (Some SliceLengthMismatch), h)"
  by (simp add: AddAllInputScripts_def)

text \<open>
  Claim C10. Let the slices have the length of the inputs and let the inputs
  before the position \<open>i\<close> be signed. If the extraction for the previous
  script of the input \<open>i\<close> succeeds with an empty list of addresses, the call
  panics with an index out of range at \<^verbatim>\<open>addrs[0]\<close>; it returns no error.
  Only the first address of an extraction is ever used: a signer that drops
  every other address gives the same outcome on every call.
\<close>

theorem empty_identity_list_panics:
  assumes "length prev = length (TxIn tx)" and "i < length (TxIn tx)"
    and "sign_inputs S prev vals [0..<i] tx h = (Returns None, h1)"
    and "ExtractPkScriptAddrs S (prev ! i) = Inr []"
  shows "AddAllInputScripts S tx prev vals h = (Panics IndexOutOfRange, h1) \<and>
         AddAllInputScripts (first_identity_only S) tx' prev' vals' h' =
           AddAllInputScripts S tx' prev' vals' h'"
proof
  have "sign_input S prev vals i tx h1 = (Panics IndexOutOfRange, h1)"
    by (rule sign_input_no_identity) (use assms in simp_all)
  with sign_inputs_at [OF assms(2,3)] assms(1)
  show "AddAllInputScripts S tx prev vals h = (Panics IndexOutOfRange, h1)"
    by (simp add: AddAllInputScripts_def)
next
  show "AddAllInputScripts (first_identity_only S) tx' prev' vals' h' =
           AddAllInputScripts S tx' prev' vals' h'"
    by (simp add: AddAllInputScripts_def sign_inputs_first_identity)
qed

text \<open>
  Claim C10 on two inputs whose second previous script is empty and so has
  no address.
\<close>

theorem empty_identity_list_panics_witness:
  "length [[2], [] :: script] = length (TxIn (example_tx 2)) \<and>
   1 < length (TxIn (example_tx 2)) \<and>
   sign_inputs example_signer [[2], []] [5, 6] [0..<1] (example_tx 2) example_store =
     (Returns None, example_partly_signed) \<and>
   ExtractPkScriptAddrs example_signer ([[2], []] ! 1) = Inr [] \<and>
   AddAllInputScripts example_signer (example_tx 2) [[2], []] [5, 6] example_store =
     (Panics IndexOutOfRange, example_partly_signed) \<and>
   AddAllInputScripts (first_identity_only example_signer) (example_tx 2) [[2], [1]] [5, 6]
       example_store =
     AddAllInputScripts example_signer (example_tx 2) [[2], [1]] [5, 6] example_store"
proof -
  have h1: "length [[2], [] :: script] = length (TxIn (example_tx 2))"
    by (simp add: example_tx_inputs)
  have h2: "1 < length (TxIn (example_tx 2))"
    by (simp add: example_tx_inputs)
  note h3 = example_first_signed [of "[]"]
  have h4: "ExtractPkScriptAddrs example_signer ([[2], []] ! 1) = Inr []"
    by (simp add: example_signer_def)
  from empty_identity_list_panics [OF h1 h2 h3 h4] h1 h2 h3 h4
  show ?thesis by blast
qed


section \<open>Output randomization\<close>

text \<open>The conversion \<^verbatim>\<open>int32(len(outputs))\<close> keeps a length below \<open>2^31\<close>.\<close>

lemma sint_length32:
  assumes "n < 2 ^ 31"
  shows "sint (word_of_nat n :: 32 word) = int n"
proof -
  have "sint (word_of_nat n :: 32 word) = signed_take_bit 31 (int n)"
    using signed_of_nat [where ?'b = 32 and ?'a = int, of n] by simp
  also have "\<dots> = int n"
    using assms by (simp add: signed_take_bit_int_eq_self)
  finally show ?thesis .
qed

lemma RandomizeOutputPosition_swap:
  assumes "Int31n (sint (word_of_nat (length outputs) :: 32 word)) = Some r"
    and "0 \<le> r" and "r < int (length outputs)"
    and "0 \<le> index" and "index < int (length outputs)"
  shows "RandomizeOutputPosition Int31n outputs index =
         Returns (outputs[nat r := outputs ! nat index, nat index := outputs ! nat r], r)"
  using assms by (simp add: RandomizeOutputPosition_def)

lemma RandomizeOutputPosition_argument:
  "length outputs < 2 ^ 31 \<Longrightarrow>
   RandomizeOutputPosition Int31n outputs index =
     (case Int31n (int (length outputs)) of
        None \<Rightarrow> Panics InvalidArgument
      | Some r \<Rightarrow>
          if 0 \<le> r \<and> r < int (length outputs) \<and> 0 \<le> index \<and> index < int (length outputs)
          then Returns (outputs[nat r := outputs ! nat index, nat index := outputs ! nat r], r)
          else Panics IndexOutOfRange)"
  by (simp add: RandomizeOutputPosition_def sint_length32)

text \<open>
  Claim C8. Let the output list be non-empty, let \<open>index\<close> be one of its
  positions and let the generator, called as the code calls it, draw a
  position \<open>r\<close> of the list. Then \<^verbatim>\<open>RandomizeOutputPosition\<close> returns \<open>r\<close> and leaves the list
  with the outputs at \<open>index\<close> and \<open>r\<close> swapped and every other output in its
  place: the multiset of outputs is the same and the output that was at
  \<open>index\<close> is at the returned position. For an authored transaction with these
  outputs and this change index, \<^verbatim>\<open>RandomizeChangePosition\<close> sets
  \<^verbatim>\<open>ChangeIndex\<close> to \<open>r\<close>, where the change output now is.
\<close>

theorem randomize_preserves_outputs:
  assumes "outputs \<noteq> []"
    and "0 \<le> index" and "index < int (length outputs)"
    and "Int31n (sint (word_of_nat (length outputs) :: 32 word)) = Some r"
    and "0 \<le> r" and "r < int (length outputs)"
    and "TxOut (Tx tx) = outputs" and "ChangeIndex tx = index"
  shows "(let outputs' = outputs[nat r := outputs ! nat index, nat index := outputs ! nat r];
              tx' = tx\<lparr>Tx := (Tx tx)\<lparr>TxOut := outputs'\<rparr>, ChangeIndex := r\<rparr>
          in RandomizeOutputPosition Int31n outputs index = Returns (outputs', r) \<and>
             mset outputs' = mset outputs \<and>
             length outputs' = length outputs \<and>
             outputs' ! nat r = outputs ! nat index \<and>
             outputs' ! nat index = outputs ! nat r \<and>
             (\<forall>j < length outputs. j \<noteq> nat r \<and> j \<noteq> nat index \<longrightarrow>
                outputs' ! j = outputs ! j) \<and>
             RandomizeChangePosition Int31n tx = Returns tx' \<and>
             TxOut (Tx tx') ! nat (ChangeIndex tx') = TxOut (Tx tx) ! nat (ChangeIndex tx))"
proof -
  let ?outputs' = "outputs[nat r := outputs ! nat index, nat index := outputs ! nat r]"
  have run: "RandomizeOutputPosition Int31n outputs index = Returns (?outputs', r)"
    by (rule RandomizeOutputPosition_swap) (fact assms(4), fact assms(5), fact assms(6),
        fact assms(2), fact assms(3))
  have r: "nat r < length outputs" and i: "nat index < length outputs"
    using assms(2,3,5,6) by simp_all
  have m: "mset ?outputs' = mset outputs"
    using mset_swap [OF i r] .
  have at_r: "?outputs' ! nat r = outputs ! nat index"
    using r i by (simp add: nth_list_update)
  have at_i: "?outputs' ! nat index = outputs ! nat r"
    using r i by (simp add: nth_list_update)
  have other: "\<forall>j < length outputs. j \<noteq> nat r \<and> j \<noteq> nat index \<longrightarrow>
      ?outputs' ! j = outputs ! j"
    by simp
  have change: "RandomizeChangePosition Int31n tx =
      Returns (tx\<lparr>Tx := (Tx tx)\<lparr>TxOut := ?outputs'\<rparr>, ChangeIndex := r\<rparr>)"
    using run assms(7,8) by (simp add: RandomizeChangePosition_def)
  show ?thesis
    using run m at_r at_i other change assms(7,8) by (simp add: Let_def)
qed

text \<open>
  Claim C8 on three outputs with the change at the position 0 and a
  generator that draws the last position.
\<close>

theorem randomize_preserves_outputs_witness:
  "example_three_outputs \<noteq> [] \<and>
   (0 :: int) \<le> 0 \<and> 0 < int (length example_three_outputs) \<and>
   last_position (sint (word_of_nat (length example_three_outputs) :: 32 word)) = Some 2 \<and>
   (0 :: int) \<le> 2 \<and> 2 < int (length example_three_outputs) \<and>
   RandomizeOutputPosition last_position example_three_outputs 0 =
     Returns ([\<lparr>Value = 3, PkScript = []\<rparr>, \<lparr>Value = 2, PkScript = []\<rparr>,
               \<lparr>Value = 1, PkScript = []\<rparr>], 2) \<and>
   mset [\<lparr>Value = 3, PkScript = []\<rparr>, \<lparr>Value = 2, PkScript = []\<rparr>, \<lparr>Value = 1, PkScript = []\<rparr>]
     = mset example_three_outputs \<and>
   RandomizeChangePosition last_position
     (example_dust_tx\<lparr>Tx := (Tx example_dust_tx)\<lparr>TxOut := example_three_outputs\<rparr>,
                      ChangeIndex := 0\<rparr>) =
     Returns (example_dust_tx\<lparr>Tx := (Tx example_dust_tx)
                \<lparr>TxOut := [\<lparr>Value = 3, PkScript = []\<rparr>, \<lparr>Value = 2, PkScript = []\<rparr>,
                            \<lparr>Value = 1, PkScript = []\<rparr>]\<rparr>,
              ChangeIndex := 2\<rparr>)"
proof -
  let ?tx = "example_dust_tx\<lparr>Tx := (Tx example_dust_tx)\<lparr>TxOut := example_three_outputs\<rparr>,
                            ChangeIndex := 0\<rparr>"
  have h1: "example_three_outputs \<noteq> []"
    by (simp add: example_three_outputs_def)
  have h3: "(0 :: int) \<le> 0"
    by simp
  have h4: "0 < int (length example_three_outputs)"
    by (simp add: example_three_outputs_def)
  have h5: "last_position (sint (word_of_nat (length example_three_outputs) :: 32 word)) = Some 2"
    by (simp add: example_three_outputs_def last_position_def)
  have h6: "(0 :: int) \<le> 2"
    by simp
  have h7: "2 < int (length example_three_outputs)"
    by (simp add: example_three_outputs_def)
  have h8: "TxOut (Tx ?tx) = example_three_outputs"
    by simp
  have h9: "ChangeIndex ?tx = 0"
    by simp
  from randomize_preserves_outputs [where ?Int31n = last_position and tx = ?tx,
      OF h1 h3 h4 h5 h6 h7 h8 h9] h1 h4 h5 h7
  show ?thesis
    by (simp add: Let_def example_three_outputs_def)
qed

text \<open>
  Claim C9. For an authored transaction without a change output
  (\<^verbatim>\<open>ChangeIndex\<close> is \<open>-1\<close>), \<^verbatim>\<open>RandomizeChangePosition\<close> never returns: it
  panics, whatever the generator does. Where the generator gives a draw, the
  panic is the index \<open>-1\<close> out of range in \<^verbatim>\<open>RandomizeOutputPosition\<close>; there
  is no guard that would make the call a no-op or an error.
\<close>

theorem randomize_without_change_panics:
  assumes "ChangeIndex tx = - 1"
  shows "(\<exists>p. RandomizeChangePosition Int31n tx = Panics p) \<and>
         (Int31n (sint (word_of_nat (length (TxOut (Tx tx))) :: 32 word)) \<noteq> None \<longrightarrow>
            RandomizeChangePosition Int31n tx = Panics IndexOutOfRange) \<and>
         (\<exists>p. RandomizeOutputPosition Int31n (TxOut (Tx tx)) (- 1) = Panics p)"
  using assms
  by (auto simp: RandomizeChangePosition_def RandomizeOutputPosition_def split: option.splits)

text \<open>Claim C9 on the transaction that was authored without change.\<close>

theorem randomize_without_change_panics_witness:
  "ChangeIndex example_dust_tx = - 1 \<and>
   last_position (sint (word_of_nat (length (TxOut (Tx example_dust_tx))) :: 32 word)) \<noteq> None \<and>
   RandomizeChangePosition last_position example_dust_tx = Panics IndexOutOfRange"
proof -
  have h: "ChangeIndex example_dust_tx = - 1"
    by (simp add: example_dust_tx_def)
  have d: "last_position (sint (word_of_nat (length (TxOut (Tx example_dust_tx))) :: 32 word))
      \<noteq> None"
    by (simp add: example_dust_tx_def example_outputs_def last_position_def)
  from randomize_without_change_panics [OF h, of last_position] h d
  show ?thesis by blast
qed

end
